theory Spec2Isabelle
  imports Complex_Main "HOL-Library.Multiset"
begin

section \<open>Python exceptions and values\<close>

text \<open>
  Every \<^verbatim>\<open>raise\<close> of the modelled code is a value of \<open>error\<close>. An operation on a
  database takes the state of the database file and returns the new state together with
  its outcome, so that what a failed call leaves behind is part of the result.
  \<open>MalformedLiteral\<close> stands for the \<^verbatim>\<open>ValueError\<close> or \<^verbatim>\<open>SyntaxError\<close> that
  \<^verbatim>\<open>ast.literal_eval\<close> raises on a text it cannot evaluate, \<open>OverflowError\<close> is raised
  by \<^verbatim>\<open>sqlite3\<close> when it binds a Python integer outside the range of an SQLite
  \<^verbatim>\<open>INTEGER\<close>, and \<open>DatabaseError\<close> is what \<^verbatim>\<open>pd.read_sql_query\<close> raises when the
  execution of the query fails, with the message of SQLite.
  A Python \<^verbatim>\<open>str\<close> whose content matters character by character is the list of its
  code points; identifiers (model names, column texts written in ASCII) are HOL strings.
\<close>

datatype error =
    KeyError string
  | ValueError
  | IntegrityError string
  | MalformedLiteral
  | OverflowError
  | DatabaseError string

type_synonym py_str = "nat list"

definition str :: "string \<Rightarrow> py_str" where
  "str s = map of_char s"

type_synonym py_dict = "(py_str \<times> py_str) list"


section \<open>Ledger: \<^verbatim>\<open>pyrobbot/tokens.py\<close> and \<^verbatim>\<open>gpt_buddy_bot/tokens.py\<close>\<close>

text \<open>
  \<^verbatim>\<open>PRICE_PER_K_TOKENS\<close>, identical in both modules: model name, input price and output
  price per thousand tokens, with the decimal literals as the source writes them.
\<close>

definition PRICE_PER_K_TOKENS :: "(string \<times> real \<times> real) list" where
  "PRICE_PER_K_TOKENS =
    [(''gpt-3.5-turbo'', 0.0015, 0.002),
     (''gpt-3.5-turbo-16k'', 0.001, 0.002),
     (''gpt-3.5-turbo-1106'', 0.001, 0.002),
     (''gpt-4-1106-preview'', 0.03, 0.06),
     (''gpt-4'', 0.03, 0.06),
     (''text-embedding-ada-002'', 0.0001, 0.0),
     (''full-history'', 0.0, 0.0)]"

text \<open>
  Prices and costs are Python floats, that is IEEE doubles. A float is modelled by the real
  number it is, and the operations on floats, which round their results, are parameters:
  \<open>float_literal x\<close> is the float that the decimal literal \<open>x\<close> denotes, \<open>float_truediv\<close> is
  \<^verbatim>\<open>x / y\<close> on two floats, and \<open>int_mul_float n x\<close> is \<^verbatim>\<open>n * x\<close> for an integer \<open>n\<close> and a
  float \<open>x\<close>. Nothing is assumed of them.
\<close>

record float_arithmetic =
  float_literal :: "real \<Rightarrow> real"
  float_truediv :: "real \<Rightarrow> real \<Rightarrow> real"
  int_mul_float :: "int \<Rightarrow> real \<Rightarrow> real"

text \<open>\<^verbatim>\<open>self.token_price\<close>, built in \<^verbatim>\<open>__init__\<close>: every price divided by \<^verbatim>\<open>1000.0\<close>.\<close>

definition token_price :: "float_arithmetic \<Rightarrow> string \<rightharpoonup> real \<times> real" where
  "token_price fl =
    map_of (map (\<lambda>(model, inp, outp).
                  (model, (float_truediv fl (float_literal fl inp) (float_literal fl 1000.0),
                           float_truediv fl (float_literal fl outp) (float_literal fl 1000.0))))
              PRICE_PER_K_TOKENS)"

text \<open>
  A row of the table \<^verbatim>\<open>token_costs\<close>. The column \<^verbatim>\<open>timestamp\<close> is \<^verbatim>\<open>INTEGER\<close> in
  \<^verbatim>\<open>pyrobbot\<close> and \<^verbatim>\<open>REAL PRIMARY KEY\<close> in \<^verbatim>\<open>gpt_buddy_bot\<close>, hence the type parameter.
  Token counts are Python integers, which are unbounded; an SQLite \<^verbatim>\<open>INTEGER\<close> is a signed
  integer of 64 bits.
\<close>

record 't token_costs_row =
  timestamp :: 't
  model :: string
  n_input_tokens :: int
  n_output_tokens :: int
  cost_input_tokens :: real
  cost_output_tokens :: real

definition sqlite_integer :: "int \<Rightarrow> bool" where
  "sqlite_integer n \<longleftrightarrow> - (2 ^ 63) \<le> n \<and> n < 2 ^ 63"

text \<open>
  \<^verbatim>\<open>TokenUsageDatabase.insert_data\<close> of \<^verbatim>\<open>pyrobbot\<close>. The argument \<open>now\<close> is the reading
  \<^verbatim>\<open>int(datetime.datetime.utcnow().timestamp())\<close>. The tuple of values is evaluated before
  \<^verbatim>\<open>cursor.execute\<close> runs, so the \<^verbatim>\<open>KeyError\<close> of \<^verbatim>\<open>self.token_price[model]\<close> comes before
  any write. When the tuple is bound, an integer outside the range of an SQLite
  \<^verbatim>\<open>INTEGER\<close> raises \<^verbatim>\<open>OverflowError\<close>, again before any write (so does, in the tuple
  itself, the product of a float with an integer too large for a float). The statement is a
  plain \<^verbatim>\<open>INSERT\<close> into a table without a key.
\<close>

definition insert_data ::
  "float_arithmetic \<Rightarrow> string option \<Rightarrow> int \<Rightarrow> int \<Rightarrow> int \<Rightarrow> int token_costs_row list
    \<Rightarrow> int token_costs_row list \<times> (error + unit)" where
  "insert_data fl model_arg n_in n_out now db =
    (case model_arg of
       None \<Rightarrow> (db, Inr ())
     | Some m \<Rightarrow>
        (case token_price fl m of
           None \<Rightarrow> (db, Inl (KeyError m))
         | Some (price_in, price_out) \<Rightarrow>
            (if sqlite_integer now \<and> sqlite_integer n_in \<and> sqlite_integer n_out
             then (db @ [\<lparr>timestamp = now, model = m,
                           n_input_tokens = n_in, n_output_tokens = n_out,
                           cost_input_tokens = int_mul_float fl n_in price_in,
                           cost_output_tokens = int_mul_float fl n_out price_out\<rparr>],
                   Inr ())
             else (db, Inl OverflowError))))"

text \<open>
  \<^verbatim>\<open>TokenUsageDatabase.insert_data\<close> of \<^verbatim>\<open>gpt_buddy_bot\<close>: the table declares
  \<^verbatim>\<open>timestamp REAL PRIMARY KEY\<close> and the statement is \<^verbatim>\<open>INSERT OR REPLACE\<close>, so a row
  whose timestamp equals the new one is deleted before the new row is stored. Here \<open>now\<close>
  is the reading \<^verbatim>\<open>datetime.datetime.utcnow().timestamp()\<close>, a float.
\<close>

definition gpt_buddy_bot_insert_data ::
  "float_arithmetic \<Rightarrow> string option \<Rightarrow> int \<Rightarrow> int \<Rightarrow> real \<Rightarrow> real token_costs_row list
    \<Rightarrow> real token_costs_row list \<times> (error + unit)" where
  "gpt_buddy_bot_insert_data fl model_arg n_in n_out now db =
    (case model_arg of
       None \<Rightarrow> (db, Inr ())
     | Some m \<Rightarrow>
        (case token_price fl m of
           None \<Rightarrow> (db, Inl (KeyError m))
         | Some (price_in, price_out) \<Rightarrow>
            (if sqlite_integer n_in \<and> sqlite_integer n_out
             then (filter (\<lambda>r. timestamp r \<noteq> now) db
                     @ [\<lparr>timestamp = now, model = m,
                          n_input_tokens = n_in, n_output_tokens = n_out,
                          cost_input_tokens = int_mul_float fl n_in price_in,
                          cost_output_tokens = int_mul_float fl n_out price_out\<rparr>],
                   Inr ())
             else (db, Inl OverflowError))))"








text \<open>
  What is known of a sort: \<open>descending_by\<close> and \<open>ascending_by\<close> say that the result is a
  permutation of the rows, in the order of the key.
\<close>

definition descending_by :: "('a \<Rightarrow> 'k::linorder) \<Rightarrow> ('a list \<Rightarrow> 'a list) \<Rightarrow> bool" where
  "descending_by key srt \<longleftrightarrow>
    (\<forall>xs. mset (srt xs) = mset xs \<and> sorted (rev (map key (srt xs))))"

definition ascending_by :: "('a \<Rightarrow> 'k::linorder) \<Rightarrow> ('a list \<Rightarrow> 'a list) \<Rightarrow> bool" where
  "ascending_by key srt \<longleftrightarrow>
    (\<forall>xs. mset (srt xs) = mset xs \<and> sorted (map key (srt xs)))"





text \<open>
  A stable sort into descending order, as \<^verbatim>\<open>ORDER BY ... DESC\<close> and
  \<^verbatim>\<open>sort_values(..., ascending=False)\<close> with a stable algorithm give it: rows with equal
  keys keep their order.
\<close>

definition sort_descending :: "('a \<Rightarrow> 'k::linorder) \<Rightarrow> 'a list \<Rightarrow> 'a list" where
  "sort_descending key xs = rev (sort_key key (rev xs))"


section \<open>Exchange store: \<^verbatim>\<open>pyrobbot/embeddings_database.py\<close>\<close>

text \<open>
  A row of the table \<^verbatim>\<open>messages\<close>; \<^verbatim>\<open>message_exchange\<close> and \<^verbatim>\<open>embedding\<close> are
  \<^verbatim>\<open>TEXT\<close> columns holding what \<^verbatim>\<open>json.dumps\<close> wrote.
\<close>

record messages_row =
  timestamp :: int
  chat_model :: string
  message_exchange :: string
  embedding :: string

text \<open>
  The triggers of the database file. Both triggers that \<^verbatim>\<open>create\<close> installs have the body
  \<^verbatim>\<open>SELECT RAISE(FAIL, 'modification not allowed')\<close>, so a trigger is its name, the event
  it is attached to, its table and the message it raises.
\<close>

datatype sql_table = Embedding_model | Messages

datatype sql_event = BEFORE_INSERT | BEFORE_UPDATE | BEFORE_DELETE

record sql_trigger =
  trigger_name :: string
  trigger_event :: sql_event
  trigger_table :: sql_table
  raise_message :: string

text \<open>
  The state of one database file: the rows of the table \<^verbatim>\<open>embedding_model\<close>
  (\<^verbatim>\<open>created_timestamp\<close>, \<^verbatim>\<open>embedding_model\<close>), the rows of \<^verbatim>\<open>messages\<close> in insertion
  order, and the triggers.
\<close>

record embeddings_database =
  embedding_model_table :: "(int \<times> string) list"
  messages_table :: "messages_row list"
  triggers :: "sql_trigger list"

definition empty_file :: embeddings_database where
  "empty_file = \<lparr>embedding_model_table = [], messages_table = [], triggers = []\<rparr>"

definition create_trigger_if_not_exists ::
  "sql_trigger \<Rightarrow> sql_trigger list \<Rightarrow> sql_trigger list" where
  "create_trigger_if_not_exists t ts =
    (if trigger_name t \<in> set (map trigger_name ts) then ts else ts @ [t])"

text \<open>
  \<^verbatim>\<open>EmbeddingsDatabase.create\<close>: the two tables (they are the fields of the state) and the
  two triggers, each \<^verbatim>\<open>BEFORE UPDATE\<close>.
\<close>

definition create :: "embeddings_database \<Rightarrow> embeddings_database" where
  "create db =
    db\<lparr>triggers :=
      create_trigger_if_not_exists
        \<lparr>trigger_name = ''prevent_messages_modification'',
         trigger_event = BEFORE_UPDATE, trigger_table = Messages,
         raise_message = ''modification not allowed''\<rparr>
        (create_trigger_if_not_exists
          \<lparr>trigger_name = ''prevent_embedding_model_modification'',
           trigger_event = BEFORE_UPDATE, trigger_table = Embedding_model,
           raise_message = ''modification not allowed''\<rparr>
          (triggers db))\<rparr>"

text \<open>
  SQLite's part of the storage boundary. A statement \<^verbatim>\<open>UPDATE messages SET ... WHERE ...\<close>
  or \<^verbatim>\<open>DELETE FROM messages WHERE ...\<close> fires the row triggers of its event before it
  touches the first row its \<^verbatim>\<open>WHERE\<close> selects; \<^verbatim>\<open>RAISE(FAIL, msg)\<close> ends the statement with
  an error and nothing written. Without such a trigger the statement is carried out.
\<close>

definition fired_trigger :: "sql_event \<Rightarrow> sql_table \<Rightarrow> embeddings_database \<Rightarrow> sql_trigger option" where
  "fired_trigger ev tb db =
    (case filter (\<lambda>t. trigger_event t = ev \<and> trigger_table t = tb) (triggers db) of
       [] \<Rightarrow> None
     | t # _ \<Rightarrow> Some t)"

definition update_messages ::
  "(messages_row \<Rightarrow> bool) \<Rightarrow> (messages_row \<Rightarrow> messages_row) \<Rightarrow> embeddings_database
    \<Rightarrow> embeddings_database \<times> (error + unit)" where
  "update_messages wher setter db =
    (if \<exists>r \<in> set (messages_table db). wher r then
       (case fired_trigger BEFORE_UPDATE Messages db of
          Some t \<Rightarrow> (db, Inl (IntegrityError (raise_message t)))
        | None \<Rightarrow>
            (db\<lparr>messages_table := map (\<lambda>r. if wher r then setter r else r) (messages_table db)\<rparr>,
             Inr ()))
     else (db, Inr ()))"

definition delete_from_messages ::
  "(messages_row \<Rightarrow> bool) \<Rightarrow> embeddings_database \<Rightarrow> embeddings_database \<times> (error + unit)" where
  "delete_from_messages wher db =
    (if \<exists>r \<in> set (messages_table db). wher r then
       (case fired_trigger BEFORE_DELETE Messages db of
          Some t \<Rightarrow> (db, Inl (IntegrityError (raise_message t)))
        | None \<Rightarrow>
            (db\<lparr>messages_table := filter (\<lambda>r. \<not> wher r) (messages_table db)\<rparr>, Inr ()))
     else (db, Inr ()))"

text \<open>\<^verbatim>\<open>get_embedding_model\<close>: \<^verbatim>\<open>fetchone\<close> of the table \<^verbatim>\<open>embedding_model\<close>.\<close>

definition get_embedding_model :: "embeddings_database \<Rightarrow> string option" where
  "get_embedding_model db =
    (case embedding_model_table db of
       [] \<Rightarrow> None
     | result # _ \<Rightarrow> Some (snd result))"

text \<open>
  \<^verbatim>\<open>_init_database\<close>: one \<^verbatim>\<open>INSERT\<close> into \<^verbatim>\<open>embedding_model\<close>, whose primary key is the
  model name.
\<close>

definition init_database ::
  "string \<Rightarrow> int \<Rightarrow> embeddings_database \<Rightarrow> embeddings_database \<times> (error + unit)" where
  "init_database self_embedding_model create_time db =
    (if self_embedding_model \<in> set (map snd (embedding_model_table db)) then
       (db, Inl (IntegrityError ''UNIQUE constraint failed: embedding_model.embedding_model''))
     else
       (db\<lparr>embedding_model_table :=
             embedding_model_table db @ [(create_time, self_embedding_model)]\<rparr>,
        Inr ()))"

text \<open>
  \<^verbatim>\<open>insert_message_exchange\<close>. \<open>self_embedding_model\<close> is the model the object was
  constructed with; \<open>create_time\<close> and \<open>now\<close> are the two clock readings;
  \<open>dumps_exchange\<close> and \<open>dumps_embedding\<close> are \<^verbatim>\<open>json.dumps\<close> on the two arguments.
\<close>

definition insert_message_exchange ::
  "string \<Rightarrow> ('x \<Rightarrow> string) \<Rightarrow> ('e \<Rightarrow> string) \<Rightarrow> int \<Rightarrow> int
    \<Rightarrow> string \<Rightarrow> 'x \<Rightarrow> 'e \<Rightarrow> embeddings_database
    \<Rightarrow> embeddings_database \<times> (error + unit)" where
  "insert_message_exchange self_embedding_model dumps_exchange dumps_embedding create_time now
      chat_model_arg message_exchange_arg embedding_arg db =
    (let insert_row = (\<lambda>db'.
           (db'\<lparr>messages_table := messages_table db'
                 @ [\<lparr>timestamp = now, chat_model = chat_model_arg,
                      message_exchange = dumps_exchange message_exchange_arg,
                      embedding = dumps_embedding embedding_arg\<rparr>]\<rparr>,
            Inr ()))
     in case get_embedding_model db of
          None \<Rightarrow>
            (case init_database self_embedding_model create_time db of
               (db', Inl e) \<Rightarrow> (db', Inl e)
             | (db', Inr _) \<Rightarrow> insert_row db')
        | Some stored_embedding_model \<Rightarrow>
            if stored_embedding_model \<noteq> self_embedding_model then (db, Inl ValueError)
            else insert_row db)"

definition get_messages_dataframe :: "embeddings_database \<Rightarrow> messages_row list" where
  "get_messages_dataframe db = messages_table db"

text \<open>
  A sequence of \<^verbatim>\<open>insert_message_exchange\<close> calls by one object, each call given as
  (clock reading of \<^verbatim>\<open>_init_database\<close>, clock reading of the insert, chat model, exchange,
  embedding); the sequence stops at the first call that raises.
\<close>

fun insert_all ::
  "string \<Rightarrow> ('x \<Rightarrow> string) \<Rightarrow> ('e \<Rightarrow> string) \<Rightarrow> (int \<times> int \<times> string \<times> 'x \<times> 'e) list
    \<Rightarrow> embeddings_database \<Rightarrow> embeddings_database \<times> (error + unit)" where
  "insert_all em dx de [] db = (db, Inr ())"
| "insert_all em dx de ((create_time, now, cm, x, e) # calls) db =
    (case insert_message_exchange em dx de create_time now cm x e db of
       (db', Inl err) \<Rightarrow> (db', Inl err)
     | (db', Inr _) \<Rightarrow> insert_all em dx de calls db')"


section \<open>Chat context: \<^verbatim>\<open>pyrobbot/chat_context.py\<close>\<close>

subsection \<open>The pandas operations used\<close>

text \<open>
  A data frame is the list of its rows. \<^verbatim>\<open>head(n)\<close> is \<^verbatim>\<open>iloc[:n]\<close> and \<^verbatim>\<open>tail(n)\<close> is
  \<^verbatim>\<open>iloc[-n:]\<close>, or no row when \<open>n = 0\<close>; a negative \<open>n\<close> leaves out rows at the other
  end. \<^verbatim>\<open>Series.apply\<close> with a function that raises on one value raises.
  \<^verbatim>\<open>drop_duplicates\<close> keeps the first of equal values; equality of the values is
  Python's \<^verbatim>\<open>==\<close>, which is the equality of the type that models them.
\<close>

definition df_head :: "int \<Rightarrow> 'a list \<Rightarrow> 'a list" where
  "df_head n xs = (if 0 \<le> n then take (nat n) xs else take (length xs - nat (- n)) xs)"

definition df_tail :: "int \<Rightarrow> 'a list \<Rightarrow> 'a list" where
  "df_tail n xs =
    (if n = 0 then [] else if 0 < n then drop (length xs - nat n) xs else drop (nat (- n)) xs)"

definition series_apply :: "('a \<Rightarrow> 'b option) \<Rightarrow> 'a list \<Rightarrow> 'b list option" where
  "series_apply f xs = those (map f xs)"

fun drop_duplicates :: "'a list \<Rightarrow> 'a list" where
  "drop_duplicates [] = []"
| "drop_duplicates (x # xs) = x # drop_duplicates (filter (\<lambda>y. y \<noteq> x) xs)"

text \<open>
  The rows of a frame whose value under \<open>key\<close> is met for the first time: the rows that
  the index of a series keeps after \<^verbatim>\<open>drop_duplicates\<close>.
\<close>

fun first_rows :: "('a \<Rightarrow> 'k) \<Rightarrow> 'a list \<Rightarrow> 'a list" where
  "first_rows key [] = []"
| "first_rows key (x # xs) = x # first_rows key (filter (\<lambda>y. key y \<noteq> key x) xs)"

subsection \<open>Loading the history and assembling the context\<close>

text \<open>
  \<^verbatim>\<open>ChatContext.load_history\<close>. \<open>literal_eval\<close> is \<^verbatim>\<open>ast.literal_eval\<close> on the text of an
  exchange, \<open>None\<close> where it raises; \<open>'m\<close> is the type of a parsed message.
\<close>

definition load_history ::
  "(string \<Rightarrow> 'm list option) \<Rightarrow> embeddings_database \<Rightarrow> error + 'm list" where
  "load_history literal_eval db =
    (let messages_df = get_messages_dataframe db in
     case series_apply literal_eval (map message_exchange messages_df) of
       None \<Rightarrow> Inl MalformedLiteral
     | Some msg_exchanges \<Rightarrow> Inr (concat msg_exchanges))"

definition sys_directives :: py_str where
  "sys_directives = str ''Considering the previous messages, answer the next message:''"

definition make_list_of_context_msgs :: "py_dict list \<Rightarrow> py_str \<Rightarrow> py_dict list" where
  "make_list_of_context_msgs history system_name =
    (let sys_msg = [(str ''role'', str ''system''), (str ''name'', system_name),
                    (str ''content'', sys_directives)]
     in history @ [sys_msg])"

text \<open>
  \<^verbatim>\<open>ChatContext.get_context\<close>; \<open>select_relevant_history\<close> is the method of the subclass
  in use and \<open>system_name\<close> is \<^verbatim>\<open>self.parent_chat.system_name\<close>.
\<close>

definition get_context ::
  "('q \<Rightarrow> error + py_dict list) \<Rightarrow> py_str \<Rightarrow> 'q \<Rightarrow> error + py_dict list" where
  "get_context select_relevant_history_method system_name msg =
    (case select_relevant_history_method msg of
       Inl e \<Rightarrow> Inl e
     | Inr history \<Rightarrow> Inr (make_list_of_context_msgs history system_name))"

text \<open>\<^verbatim>\<open>FullHistoryChatContext.select_relevant_history\<close>: the whole history, whatever the message.\<close>

definition FullHistoryChatContext_select_relevant_history ::
  "(string \<Rightarrow> 'm list option) \<Rightarrow> embeddings_database \<Rightarrow> 'q \<Rightarrow> error + 'm list" where
  "FullHistoryChatContext_select_relevant_history literal_eval db msg = load_history literal_eval db"

subsection \<open>The selector \<^verbatim>\<open>_select_relevant_history\<close>\<close>

text \<open>
  The first two statements of the function: the column \<^verbatim>\<open>embedding\<close> is parsed and the
  column \<^verbatim>\<open>similarity\<close> is added. \<open>parse_embedding\<close> is \<^verbatim>\<open>ast.literal_eval\<close> followed by
  \<^verbatim>\<open>np.array\<close>, \<open>None\<close> where it raises, and \<open>cosine_similarity\<close> is the function of
  that name of \<^verbatim>\<open>openai.embeddings_utils\<close>; its values are taken in a linear order,
  so a similarity that is not a number (a vector of zeros) is outside the model, as are
  vectors of different lengths.
  A row of the frame with the new column is a pair.
\<close>

definition with_similarity ::
  "(string \<Rightarrow> 'e option) \<Rightarrow> ('e \<Rightarrow> 'e \<Rightarrow> 's) \<Rightarrow> messages_row list \<Rightarrow> 'e
    \<Rightarrow> (messages_row \<times> 's) list option" where
  "with_similarity parse_embedding cosine_similarity history_df emb =
    (case series_apply parse_embedding (map embedding history_df) of
       None \<Rightarrow> None
     | Some arrays \<Rightarrow> Some (zip history_df (map (\<lambda>x. cosine_similarity x emb) arrays)))"

text \<open>
  The frames \<^verbatim>\<open>df_last_n_chats\<close>, \<^verbatim>\<open>df_similar_chats\<close> and \<^verbatim>\<open>df_context\<close>.
  \<open>sort_similarity\<close> is \<^verbatim>\<open>sort_values("similarity", ascending=False)\<close> and
  \<open>sort_timestamp\<close> is \<^verbatim>\<open>sort_values("timestamp")\<close>: pandas sorts with an algorithm
  that is not stable, so the order of rows with equal keys is left to these parameters.
\<close>

definition df_last_n_chats :: "int \<Rightarrow> 'r list \<Rightarrow> 'r list" where
  "df_last_n_chats max_n_tailing_prompt_reply_pairs history_df =
    df_tail max_n_tailing_prompt_reply_pairs history_df"

definition df_similar_chats ::
  "('r list \<Rightarrow> 'r list) \<Rightarrow> ('r list \<Rightarrow> 'r list) \<Rightarrow> int \<Rightarrow> 'r list \<Rightarrow> 'r list" where
  "df_similar_chats sort_similarity sort_timestamp max_n_prompt_reply_pairs history_df =
    sort_timestamp (df_head max_n_prompt_reply_pairs (sort_similarity history_df))"

definition df_context ::
  "('r list \<Rightarrow> 'r list) \<Rightarrow> ('r list \<Rightarrow> 'r list) \<Rightarrow> int \<Rightarrow> int \<Rightarrow> 'r list \<Rightarrow> 'r list" where
  "df_context sort_similarity sort_timestamp max_n_prompt_reply_pairs
      max_n_tailing_prompt_reply_pairs history_df =
    df_similar_chats sort_similarity sort_timestamp max_n_prompt_reply_pairs history_df
      @ df_last_n_chats max_n_tailing_prompt_reply_pairs history_df"

text \<open>
  \<^verbatim>\<open>selected_history\<close>, the list of exchanges before it is flattened, and the function
  itself. \<open>literal_eval\<close> is \<^verbatim>\<open>ast.literal_eval\<close> on the text of an exchange.
\<close>

definition selected_history ::
  "(string \<Rightarrow> 'm list option) \<Rightarrow> (string \<Rightarrow> 'e option) \<Rightarrow> ('e \<Rightarrow> 'e \<Rightarrow> 's)
    \<Rightarrow> ((messages_row \<times> 's) list \<Rightarrow> (messages_row \<times> 's) list)
    \<Rightarrow> ((messages_row \<times> 's) list \<Rightarrow> (messages_row \<times> 's) list)
    \<Rightarrow> messages_row list \<Rightarrow> 'e \<Rightarrow> int \<Rightarrow> int \<Rightarrow> error + 'm list list" where
  "selected_history literal_eval parse_embedding cosine_similarity sort_similarity sort_timestamp
      history_df emb max_n_prompt_reply_pairs max_n_tailing_prompt_reply_pairs =
    (case with_similarity parse_embedding cosine_similarity history_df emb of
       None \<Rightarrow> Inl MalformedLiteral
     | Some scored_df \<Rightarrow>
        (case series_apply literal_eval
                (map (message_exchange \<circ> fst)
                  (df_context sort_similarity sort_timestamp max_n_prompt_reply_pairs
                     max_n_tailing_prompt_reply_pairs scored_df)) of
           None \<Rightarrow> Inl MalformedLiteral
         | Some exchanges \<Rightarrow> Inr (drop_duplicates exchanges)))"

definition select_relevant_history ::
  "(string \<Rightarrow> 'm list option) \<Rightarrow> (string \<Rightarrow> 'e option) \<Rightarrow> ('e \<Rightarrow> 'e \<Rightarrow> 's)
    \<Rightarrow> ((messages_row \<times> 's) list \<Rightarrow> (messages_row \<times> 's) list)
    \<Rightarrow> ((messages_row \<times> 's) list \<Rightarrow> (messages_row \<times> 's) list)
    \<Rightarrow> messages_row list \<Rightarrow> 'e \<Rightarrow> int \<Rightarrow> int \<Rightarrow> error + 'm list" where
  "select_relevant_history literal_eval parse_embedding cosine_similarity sort_similarity
      sort_timestamp history_df emb max_n_prompt_reply_pairs max_n_tailing_prompt_reply_pairs =
    (case selected_history literal_eval parse_embedding cosine_similarity sort_similarity
            sort_timestamp history_df emb max_n_prompt_reply_pairs
            max_n_tailing_prompt_reply_pairs of
       Inl e \<Rightarrow> Inl e
     | Inr exchanges \<Rightarrow> Inr (concat exchanges))"

text \<open>
  The rows of \<^verbatim>\<open>df_context\<close> whose exchange is kept by \<^verbatim>\<open>drop_duplicates\<close>: the index
  of the series from which \<^verbatim>\<open>selected_history\<close> is read.
\<close>

definition selected_rows ::
  "(string \<Rightarrow> 'm list option) \<Rightarrow> (string \<Rightarrow> 'e option) \<Rightarrow> ('e \<Rightarrow> 'e \<Rightarrow> 's)
    \<Rightarrow> ((messages_row \<times> 's) list \<Rightarrow> (messages_row \<times> 's) list)
    \<Rightarrow> ((messages_row \<times> 's) list \<Rightarrow> (messages_row \<times> 's) list)
    \<Rightarrow> messages_row list \<Rightarrow> 'e \<Rightarrow> int \<Rightarrow> int \<Rightarrow> messages_row list option" where
  "selected_rows literal_eval parse_embedding cosine_similarity sort_similarity sort_timestamp
      history_df emb max_n_prompt_reply_pairs max_n_tailing_prompt_reply_pairs =
    (case with_similarity parse_embedding cosine_similarity history_df emb of
       None \<Rightarrow> None
     | Some scored_df \<Rightarrow>
         Some (map fst
           (first_rows (literal_eval \<circ> message_exchange \<circ> fst)
              (df_context sort_similarity sort_timestamp max_n_prompt_reply_pairs
                 max_n_tailing_prompt_reply_pairs scored_df))))"

text \<open>The default values of the two bounds.\<close>

definition default_max_n_prompt_reply_pairs :: int where
  "default_max_n_prompt_reply_pairs = 5"

definition default_max_n_tailing_prompt_reply_pairs :: int where
  "default_max_n_tailing_prompt_reply_pairs = 2"


section \<open>The two codecs of the exchange text: \<^verbatim>\<open>json.dumps\<close> and \<^verbatim>\<open>ast.literal_eval\<close>\<close>

text \<open>
  The store writes an exchange with \<^verbatim>\<open>json.dumps\<close> and the chat context reads it with
  \<^verbatim>\<open>ast.literal_eval\<close>. Both are functions of the Python library; they are modelled here
  on the values the store holds: an exchange is a list of dictionaries from strings to
  strings, an embedding a list of numbers (of integers here).
\<close>

subsection \<open>json.dumps\<close>

text \<open>
  \<^verbatim>\<open>json.dumps\<close> with its default arguments (\<^verbatim>\<open>ensure_ascii=True\<close>, separators
  \<^verbatim>\<open>", "\<close> and \<^verbatim>\<open>": "\<close>). A string is written between double quotes; the backslash,
  the double quote and five control characters have a two-character escape, the other
  printable ASCII characters stand for themselves, every other character below U+10000 is
  written \<^verbatim>\<open>\uXXXX\<close> with four lower-case hexadecimal digits, and a character from
  U+10000 on is written as the two escapes of its UTF-16 surrogate pair.
\<close>

definition hex_digit :: "nat \<Rightarrow> char" where
  "hex_digit d = ''0123456789abcdef'' ! d"

definition hex4 :: "nat \<Rightarrow> string" where
  "hex4 n = map hex_digit [n div 4096 mod 16, n div 256 mod 16, n div 16 mod 16, n mod 16]"

definition escape_char :: "nat \<Rightarrow> string" where
  "escape_char c =
    (if c = 0x5C then [CHR 0x5C, CHR 0x5C]
     else if c = 0x22 then [CHR 0x5C, CHR 0x22]
     else if c = 0x08 then [CHR 0x5C, CHR ''b'']
     else if c = 0x0C then [CHR 0x5C, CHR ''f'']
     else if c = 0x0A then [CHR 0x5C, CHR ''n'']
     else if c = 0x0D then [CHR 0x5C, CHR ''r'']
     else if c = 0x09 then [CHR 0x5C, CHR ''t'']
     else if 0x20 \<le> c \<and> c \<le> 0x7E then [char_of c]
     else if c < 0x10000 then CHR 0x5C # CHR ''u'' # hex4 c
     else (let v = c - 0x10000;
               s1 = 0xD800 + v div 1024 mod 1024;
               s2 = 0xDC00 + v mod 1024
           in CHR 0x5C # CHR ''u'' # hex4 s1 @ CHR 0x5C # CHR ''u'' # hex4 s2))"

definition encode_basestring_ascii :: "py_str \<Rightarrow> string" where
  "encode_basestring_ascii s = CHR 0x22 # concat (map escape_char s) @ [CHR 0x22]"

text \<open>\<^verbatim>\<open>sep.join(xs)\<close>, and the texts of a dictionary and of a list of dictionaries.\<close>

fun join :: "string \<Rightarrow> string list \<Rightarrow> string" where
  "join sep [] = []"
| "join sep [x] = x"
| "join sep (x # y # ys) = x @ sep @ join sep (y # ys)"

definition dumps_dict :: "py_dict \<Rightarrow> string" where
  "dumps_dict d =
    ''{'' @ join '', '' (map (\<lambda>(k, v). encode_basestring_ascii k @ '': '' @ encode_basestring_ascii v) d) @ ''}''"

definition json_dumps :: "py_dict list \<Rightarrow> string" where
  "json_dumps xs = ''['' @ join '', '' (map dumps_dict xs) @ '']''"


subsection \<open>literal_eval\<close>

text \<open>
  \<^verbatim>\<open>ast.literal_eval\<close> on the literals that \<^verbatim>\<open>json.dumps\<close> writes for these values: a list
  display of dictionary displays whose keys and values are string literals in double
  quotes, or a list display of decimal integers. The result \<open>None\<close> stands for the error
  that \<^verbatim>\<open>ast.literal_eval\<close> raises; a Python literal of another form (single quotes,
  string prefixes, adjacent strings, other escapes, other numbers, trailing commas, nested
  values) is outside the model and also gives \<open>None\<close>.

  A string literal is read character by character: \<^verbatim>\<open>\uXXXX\<close> is the character with
  that code, each escape on its own, so two escapes that form a surrogate pair are read as
  two characters.
\<close>

datatype token = LBRACKET | RBRACKET | LBRACE | RBRACE | COLON | COMMA | MINUS | STRING py_str | NUMBER nat

definition hex_value :: "char \<Rightarrow> nat option" where
  "hex_value c =
    (let n = of_char c in
     if 48 \<le> n \<and> n \<le> 57 then Some (n - 48)
     else if 97 \<le> n \<and> n \<le> 102 then Some (n - 87)
     else if 65 \<le> n \<and> n \<le> 70 then Some (n - 55)
     else None)"

definition simple_escape :: "char \<Rightarrow> nat option" where
  "simple_escape e =
    (if e = CHR 0x5C then Some 0x5C
     else if e = CHR 0x27 then Some 0x27
     else if e = CHR 0x22 then Some 0x22
     else if e = CHR ''a'' then Some 0x07
     else if e = CHR ''b'' then Some 0x08
     else if e = CHR ''f'' then Some 0x0C
     else if e = CHR ''n'' then Some 0x0A
     else if e = CHR ''r'' then Some 0x0D
     else if e = CHR ''t'' then Some 0x09
     else if e = CHR ''v'' then Some 0x0B
     else None)"

definition cons_result :: "'a \<Rightarrow> ('a list \<times> 'b) option \<Rightarrow> ('a list \<times> 'b) option" where
  "cons_result x r = (case r of None \<Rightarrow> None | Some (xs, rest) \<Rightarrow> Some (x # xs, rest))"

fun string_body :: "string \<Rightarrow> (py_str \<times> string) option" where
  "string_body [] = None"
| "string_body (c # cs) =
    (if c = CHR 0x22 then Some ([], cs)
     else if c = CHR 0x0A \<or> 128 \<le> (of_char c :: nat) then None
     else if c = CHR 0x5C then
       (case cs of
          [] \<Rightarrow> None
        | e # r \<Rightarrow>
            if e = CHR ''u'' then
              (case r of
                 h3 # h2 # h1 # h0 # rest \<Rightarrow>
                   (case (hex_value h3, hex_value h2, hex_value h1, hex_value h0) of
                      (Some x3, Some x2, Some x1, Some x0) \<Rightarrow>
                        cons_result (x3 * 4096 + x2 * 256 + x1 * 16 + x0) (string_body rest)
                    | _ \<Rightarrow> None)
               | _ \<Rightarrow> None)
            else
              (case simple_escape e of
                 Some n \<Rightarrow> cons_result n (string_body r)
               | None \<Rightarrow> None))
     else cons_result (of_char c) (string_body cs))"

lemma string_body_shorter: "string_body s = Some (x, rest) \<Longrightarrow> length rest < length s"
proof (induction s arbitrary: x rest rule: string_body.induct)
  case 1
  then show ?case by simp
next
  case (2 c cs)
  then show ?case
    by (auto simp: cons_result_def split: if_splits list.splits option.splits prod.splits) fastforce+
qed


text \<open>
  The tokens of a text. Spaces separate tokens; a decimal integer with a leading zero is
  not a Python literal.
\<close>

definition is_digit :: "char \<Rightarrow> bool" where
  "is_digit c \<longleftrightarrow> 48 \<le> (of_char c :: nat) \<and> (of_char c :: nat) \<le> 57"

definition decimal_value :: "string \<Rightarrow> nat" where
  "decimal_value ds = foldl (\<lambda>n d. 10 * n + (of_char d - 48)) 0 ds"

function tokens :: "string \<Rightarrow> token list option" where
  "tokens [] = Some []"
| "tokens (c # cs) =
    (if c = CHR '' '' then tokens cs
     else if c = CHR ''['' then map_option (Cons LBRACKET) (tokens cs)
     else if c = CHR '']'' then map_option (Cons RBRACKET) (tokens cs)
     else if c = CHR ''{'' then map_option (Cons LBRACE) (tokens cs)
     else if c = CHR ''}'' then map_option (Cons RBRACE) (tokens cs)
     else if c = CHR '':'' then map_option (Cons COLON) (tokens cs)
     else if c = CHR '','' then map_option (Cons COMMA) (tokens cs)
     else if c = CHR ''-'' then map_option (Cons MINUS) (tokens cs)
     else if c = CHR 0x22 then
       (case string_body cs of
          None \<Rightarrow> None
        | Some (s, rest) \<Rightarrow> map_option (Cons (STRING s)) (tokens rest))
     else if is_digit c then
       (if c = CHR ''0'' \<and> cs \<noteq> [] \<and> is_digit (hd cs) then None
        else map_option (Cons (NUMBER (decimal_value (c # takeWhile is_digit cs))))
               (tokens (dropWhile is_digit cs)))
     else None)"
  by pat_completeness auto
termination
proof (relation "measure length")
  show "wf (measure length)" by simp
next
  fix c cs x2 x y
  assume "string_body cs = Some x2" "(x, y) = x2"
  then show "(y, c # cs) \<in> measure length"
    using string_body_shorter [of cs x y] by simp
next
  fix c :: char and cs :: string
  show "(dropWhile is_digit cs, c # cs) \<in> measure length"
    using length_dropWhile_le [of is_digit cs] by simp
qed simp_all

text \<open>
  A dictionary display: the items \<^verbatim>\<open>key: value\<close> separated by commas up to the closing
  brace, entered into the dictionary from left to right. \<open>dict_set\<close> is the assignment
  \<^verbatim>\<open>d[k] = v\<close>: a key that is present keeps its place and takes the new value.
\<close>

fun string_of :: "token \<Rightarrow> py_str option" where
  "string_of (STRING s) = Some s"
| "string_of _ = None"

fun dict_items :: "token list \<Rightarrow> (py_dict \<times> token list) option" where
  "dict_items (k # c # v # sep # ts) =
    (case (string_of k, string_of v) of
       (Some key, Some val) \<Rightarrow>
         if c \<noteq> COLON then None
         else if sep = COMMA then cons_result (key, val) (dict_items ts)
         else if sep = RBRACE then Some ([(key, val)], ts)
         else None
     | _ \<Rightarrow> None)"
| "dict_items _ = None"

definition dict_set :: "py_dict \<Rightarrow> py_str \<times> py_str \<Rightarrow> py_dict" where
  "dict_set d kv =
    (if fst kv \<in> set (map fst d)
     then map (\<lambda>(k', v'). if k' = fst kv then (k', snd kv) else (k', v')) d
     else d @ [kv])"

definition dict_display :: "token list \<Rightarrow> (py_dict \<times> token list) option" where
  "dict_display ts =
    (case ts of
       [] \<Rightarrow> None
     | t # ts' \<Rightarrow>
        if t \<noteq> LBRACE then None
        else if ts' \<noteq> [] \<and> hd ts' = RBRACE then Some ([], tl ts')
        else (case dict_items ts' of
                None \<Rightarrow> None
              | Some (kvs, rest) \<Rightarrow> Some (foldl dict_set [] kvs, rest)))"

lemma dict_items_shorter: "dict_items ts = Some (d, rest) \<Longrightarrow> length rest < length ts"
proof (induction ts arbitrary: d rest rule: dict_items.induct)
  case (1 k c v sep ts)
  then show ?case
    by (auto simp: cons_result_def split: option.splits prod.splits if_splits) fastforce
qed simp_all

lemma dict_display_shorter: "dict_display ts = Some (d, rest) \<Longrightarrow> length rest < length ts"
  by (auto simp: dict_display_def split: list.splits option.splits prod.splits if_splits
           dest: dict_items_shorter)

text \<open>The dictionaries of a list display, up to the closing bracket that ends the text.\<close>

function dict_list :: "token list \<Rightarrow> py_dict list option" where
  "dict_list ts =
    (case dict_display ts of
       None \<Rightarrow> None
     | Some (d, rest) \<Rightarrow>
        if rest = [RBRACKET] then Some [d]
        else if rest \<noteq> [] \<and> hd rest = COMMA then map_option (Cons d) (dict_list (tl rest))
        else None)"
  by pat_completeness auto
termination
proof (relation "measure length")
  show "wf (measure length)" by simp
next
  fix ts x2 x y
  assume "dict_display ts = Some x2" "(x, y) = x2" "y \<noteq> [RBRACKET]" "y \<noteq> [] \<and> hd y = COMMA"
  then show "(tl y, ts) \<in> measure length"
    using dict_display_shorter [of ts x y] by (cases y) auto
qed

definition literal_eval_msgs :: "string \<Rightarrow> py_dict list option" where
  "literal_eval_msgs text =
    (case tokens text of
       None \<Rightarrow> None
     | Some ts \<Rightarrow>
        if ts = [LBRACKET, RBRACKET] then Some []
        else if ts \<noteq> [] \<and> hd ts = LBRACKET then dict_list (tl ts)
        else None)"

text \<open>A list display of integers, each with an optional minus sign.\<close>

definition signed_number :: "token list \<Rightarrow> (int \<times> token list) option" where
  "signed_number ts =
    (case ts of
       MINUS # NUMBER n # rest \<Rightarrow> Some (- int n, rest)
     | NUMBER n # rest \<Rightarrow> Some (int n, rest)
     | _ \<Rightarrow> None)"

lemma signed_number_shorter: "signed_number ts = Some (d, rest) \<Longrightarrow> length rest < length ts"
  by (auto simp: signed_number_def split: list.splits token.splits)

function int_list :: "token list \<Rightarrow> int list option" where
  "int_list ts =
    (case signed_number ts of
       None \<Rightarrow> None
     | Some (d, rest) \<Rightarrow>
        if rest = [RBRACKET] then Some [d]
        else if rest \<noteq> [] \<and> hd rest = COMMA then map_option (Cons d) (int_list (tl rest))
        else None)"
  by pat_completeness auto
termination
proof (relation "measure length")
  show "wf (measure length)" by simp
next
  fix ts x2 x y
  assume "signed_number ts = Some x2" "(x, y) = x2" "y \<noteq> [RBRACKET]" "y \<noteq> [] \<and> hd y = COMMA"
  then show "(tl y, ts) \<in> measure length"
    using signed_number_shorter [of ts x y] by (cases y) auto
qed

definition literal_eval_ints :: "string \<Rightarrow> int list option" where
  "literal_eval_ints text =
    (case tokens text of
       None \<Rightarrow> None
     | Some ts \<Rightarrow>
        if ts = [LBRACKET, RBRACKET] then Some []
        else if ts \<noteq> [] \<and> hd ts = LBRACKET then int_list (tl ts)
        else None)"


subsection \<open>The exchanges on which the two codecs agree\<close>

text \<open>
  A string of the basic multilingual plane, and a dictionary with distinct keys whose keys
  and values are such strings; the text of one item of a dictionary; and the tokens of the
  text that \<^verbatim>\<open>json.dumps\<close> writes for a dictionary and for a list of dictionaries.
\<close>

definition bmp :: "py_str \<Rightarrow> bool" where
  "bmp s = list_all (\<lambda>c. c < 0x10000) s"

fun item_tokens :: "py_dict \<Rightarrow> token list" where
  "item_tokens [] = []"
| "item_tokens [(k, v)] = [STRING k, COLON, STRING v]"
| "item_tokens ((k, v) # kv # kvs) = STRING k # COLON # STRING v # COMMA # item_tokens (kv # kvs)"

definition dict_tokens :: "py_dict \<Rightarrow> token list" where
  "dict_tokens d = LBRACE # item_tokens d @ [RBRACE]"

fun dicts_tokens :: "py_dict list \<Rightarrow> token list" where
  "dicts_tokens [] = []"
| "dicts_tokens [d] = dict_tokens d"
| "dicts_tokens (d # e # es) = dict_tokens d @ COMMA # dicts_tokens (e # es)"

definition plain_dict :: "py_dict \<Rightarrow> bool" where
  "plain_dict d \<longleftrightarrow> distinct (map fst d) \<and> list_all (\<lambda>kv. bmp (fst kv) \<and> bmp (snd kv)) d"

definition item_text :: "py_str \<times> py_str \<Rightarrow> string" where
  "item_text kv = encode_basestring_ascii (fst kv) @ '': '' @ encode_basestring_ascii (snd kv)"


section \<open>The library functions at concrete inputs\<close>

text \<open>
  \<^verbatim>\<open>cosine_similarity\<close> of \<^verbatim>\<open>openai.embeddings_utils\<close> is
  \<^verbatim>\<open>np.dot(a, b) / (np.linalg.norm(a) * np.linalg.norm(b))\<close>. It is taken here on vectors
  with integer components and in exact arithmetic. For the two sorts the stable sorts
  \<open>sort_descending\<close> and \<open>sort_key\<close> are taken, for the two uses of
  \<^verbatim>\<open>ast.literal_eval\<close> the functions \<open>literal_eval_msgs\<close> and \<open>literal_eval_ints\<close>.
\<close>

definition np_dot :: "int list \<Rightarrow> int list \<Rightarrow> int" where
  "np_dot a b = sum_list (map2 (*) a b)"

definition cosine_similarity :: "int list \<Rightarrow> int list \<Rightarrow> real" where
  "cosine_similarity a b =
    of_int (np_dot a b) / (sqrt (of_int (np_dot a a)) * sqrt (of_int (np_dot b b)))"




section \<open>Concrete inputs\<close>

text \<open>The exchange of the end-to-end scenario: a user message and the reply.\<close>

definition hello_exchange :: "py_dict list" where
  "hello_exchange =
    [[(str ''role'', str ''user''), (str ''content'', str ''hello'')],
     [(str ''role'', str ''assistant''), (str ''content'', str ''hi'')]]"

text \<open>Its text in the store, and a new store in which it has been inserted.\<close>

definition hello_text :: string where
  \<open>hello_text = ''[{"role": "user", "content": "hello"}, {"role": "assistant", "content": "hi"}]''\<close>

definition hello_store :: embeddings_database where
  "hello_store =
    fst (insert_message_exchange ''full-history'' json_dumps (\<lambda>_::unit. ''null'')
           1700000000 1700000000 ''gpt-4'' hello_exchange () (create empty_file))"

text \<open>
  An exchange with the user message \<open>q\<close> and the reply \<open>a\<close>, its text in the store,
  and a stored row with that exchange.
\<close>

definition exchange :: "string \<Rightarrow> string \<Rightarrow> py_dict list" where
  "exchange q a =
    [[(str ''role'', str ''user''), (str ''content'', str q)],
     [(str ''role'', str ''assistant''), (str ''content'', str a)]]"

definition exchange_text :: "string \<Rightarrow> string \<Rightarrow> string" where
  \<open>exchange_text q a =
    ''[{"role": "user", "content": "'' @ q @ ''"}, {"role": "assistant", "content": "'' @ a @ ''"}]''\<close>

definition stored_row :: "int \<Rightarrow> string \<Rightarrow> string \<Rightarrow> string \<Rightarrow> messages_row" where
  "stored_row t q a e =
    \<lparr>timestamp = t, chat_model = ''gpt-4'', message_exchange = exchange_text q a, embedding = e\<rparr>"

text \<open>
  A history of three rows and its frame with the similarities to the embedding \<open>[1, 0]\<close>;
  the last row is the most similar one.
\<close>

definition history3 :: "messages_row list" where
  "history3 =
    [stored_row 1 ''q1'' ''a1'' ''[4, 3]'',
     stored_row 2 ''q2'' ''a2'' ''[3, 4]'',
     stored_row 3 ''q3'' ''a3'' ''[1, 0]'']"

definition scored3 :: "(messages_row \<times> real) list" where
  "scored3 =
    [(stored_row 1 ''q1'' ''a1'' ''[4, 3]'', 4 / 5),
     (stored_row 2 ''q2'' ''a2'' ''[3, 4]'', 3 / 5),
     (stored_row 3 ''q3'' ''a3'' ''[1, 0]'', 1)]"

text \<open>
  A history of seven rows, its frame with the similarities to the embedding \<open>[1, 0]\<close>, and
  the frame \<^verbatim>\<open>df_context\<close> that the default bounds give: the five most similar rows are
  the rows 7, 1, 2, 3 and 4.
\<close>

definition history7 :: "messages_row list" where
  "history7 =
    [stored_row 1 ''q1'' ''a1'' ''[4, 3]'',
     stored_row 2 ''q2'' ''a2'' ''[3, 4]'',
     stored_row 3 ''q3'' ''a3'' ''[0, 1]'',
     stored_row 4 ''q4'' ''a4'' ''[-3, 4]'',
     stored_row 5 ''q5'' ''a5'' ''[-4, 3]'',
     stored_row 6 ''q6'' ''a6'' ''[-1, 0]'',
     stored_row 7 ''q7'' ''a7'' ''[1, 0]'']"

definition scored7 :: "(messages_row \<times> real) list" where
  "scored7 =
    [(stored_row 1 ''q1'' ''a1'' ''[4, 3]'', 4 / 5),
     (stored_row 2 ''q2'' ''a2'' ''[3, 4]'', 3 / 5),
     (stored_row 3 ''q3'' ''a3'' ''[0, 1]'', 0),
     (stored_row 4 ''q4'' ''a4'' ''[-3, 4]'', - 3 / 5),
     (stored_row 5 ''q5'' ''a5'' ''[-4, 3]'', - 4 / 5),
     (stored_row 6 ''q6'' ''a6'' ''[-1, 0]'', - 1),
     (stored_row 7 ''q7'' ''a7'' ''[1, 0]'', 1)]"

definition context7 :: "(messages_row \<times> real) list" where
  "context7 =
    [(stored_row 1 ''q1'' ''a1'' ''[4, 3]'', 4 / 5),
     (stored_row 2 ''q2'' ''a2'' ''[3, 4]'', 3 / 5),
     (stored_row 3 ''q3'' ''a3'' ''[0, 1]'', 0),
     (stored_row 4 ''q4'' ''a4'' ''[-3, 4]'', - 3 / 5),
     (stored_row 7 ''q7'' ''a7'' ''[1, 0]'', 1),
     (stored_row 6 ''q6'' ''a6'' ''[-1, 0]'', - 1),
     (stored_row 7 ''q7'' ''a7'' ''[1, 0]'', 1)]"


text \<open>
  An exchange whose user message is the one character U+1F600, and the text that
  \<^verbatim>\<open>json.dumps\<close> writes for it: the character as the two escapes of its surrogate pair.
\<close>

definition emoji_exchange :: "py_dict list" where
  "emoji_exchange =
    [[(str ''role'', str ''user''), (str ''content'', [0x1F600])],
     [(str ''role'', str ''assistant''), (str ''content'', str ''hi'')]]"

definition emoji_text :: string where
  \<open>emoji_text =
    ''[{"role": "user", "content": "'' @ [CHR 0x5C] @ ''ud83d'' @ [CHR 0x5C] @ ''ude00"}, ''
    @ ''{"role": "assistant", "content": "hi"}]''\<close>

text \<open>The definitions that the evaluation of the codecs on a concrete text unfolds.\<close>

lemmas codec_defs = literal_eval_msgs_def literal_eval_ints_def str_def simple_escape_def
  hex_value_def cons_result_def dict_set_def is_digit_def dict_display_def signed_number_def
  decimal_value_def json_dumps_def dumps_dict_def encode_basestring_ascii_def escape_char_def
  char_of_def hex4_def hex_digit_def bit_Suc_0_iff


section \<open>The end-to-end scenario\<close>

lemma json_dumps_hello: "json_dumps hello_exchange = hello_text"
  by (simp add: hello_exchange_def hello_text_def codec_defs)

lemma literal_eval_hello: "literal_eval_msgs hello_text = Some hello_exchange"
  by (simp add: hello_exchange_def hello_text_def codec_defs)

lemma messages_hello_store:
  "messages_table hello_store =
    [\<lparr>timestamp = 1700000000, chat_model = ''gpt-4'', message_exchange = hello_text,
      embedding = ''null''\<rparr>]"
  by (simp add: hello_store_def insert_message_exchange_def get_embedding_model_def
      init_database_def create_def empty_file_def json_dumps_hello)

lemma load_hello: "load_history literal_eval_msgs hello_store = Inr hello_exchange"
  by (simp add: load_history_def get_messages_dataframe_def messages_hello_store
      series_apply_def literal_eval_hello)


section \<open>Properties of the ledger\<close>

lemma token_price_None_iff:
  "token_price fl m = None \<longleftrightarrow> m \<notin> fst ` set PRICE_PER_K_TOKENS"
  unfolding token_price_def by (simp add: map_of_eq_None_iff image_image case_prod_beta)

text \<open>
  Claim C8. For every model name that is not in the rate table, \<^verbatim>\<open>insert_data\<close> with that
  model and any token counts raises (\<^verbatim>\<open>KeyError\<close>), and the ledger after the failed call is
  the ledger before it: no row is appended.
\<close>

theorem insert_data_unknown_model:
  assumes "m \<notin> set (map fst PRICE_PER_K_TOKENS)"
  shows "insert_data fl (Some m) n_in n_out now db = (db, Inl (KeyError m))"
proof -
  from assms have "token_price fl m = None"
    by (simp add: token_price_None_iff)
  then show ?thesis
    by (simp add: insert_data_def)
qed

theorem insert_data_unknown_model_witness:
  "''gpt-5'' \<notin> set (map fst PRICE_PER_K_TOKENS) \<and>
   (\<forall>fl. insert_data fl (Some ''gpt-5'') 100 50 1700000000 [] = ([], Inl (KeyError ''gpt-5'')))"
proof -
  have h: "''gpt-5'' \<notin> set (map fst PRICE_PER_K_TOKENS)"
    by (simp add: PRICE_PER_K_TOKENS_def)
  from insert_data_unknown_model [OF h] h show ?thesis
    by simp
qed

lemma token_price_in_table:
  assumes "m \<in> set (map fst PRICE_PER_K_TOKENS)"
  shows "\<exists>p. token_price fl m = Some p"
proof -
  from assms have "token_price fl m \<noteq> None"
    by (simp add: token_price_None_iff)
  then show ?thesis by auto
qed

text \<open>
  In \<^verbatim>\<open>pyrobbot\<close> a call with a model of the rate table and integers in the range of an
  SQLite \<^verbatim>\<open>INTEGER\<close> appends one row and keeps every row that was there.
\<close>

lemma insert_data_appends:
  assumes "m \<in> set (map fst PRICE_PER_K_TOKENS)"
    and "sqlite_integer now" "sqlite_integer n_in" "sqlite_integer n_out"
  shows "\<exists>r. insert_data fl (Some m) n_in n_out now db = (db @ [r], Inr ())
           \<and> model r = m \<and> n_input_tokens r = n_in \<and> n_output_tokens r = n_out
           \<and> token_costs_row.timestamp r = now"
proof -
  from token_price_in_table [OF assms(1)] obtain p where "token_price fl m = Some p" ..
  with assms(2-4) show ?thesis
    by (cases p) (simp add: insert_data_def)
qed

lemma token_price_gpt4:
  "token_price fl ''gpt-4'' =
     Some (float_truediv fl (float_literal fl 0.03) (float_literal fl 1000),
           float_truediv fl (float_literal fl 0.06) (float_literal fl 1000))"
  by (simp add: token_price_def PRICE_PER_K_TOKENS_def)

text \<open>
  Claim C7. Every \<^verbatim>\<open>insert_data\<close> call with a model of the rate table appends exactly one
  row and replaces none, however close in time two calls are. The module
  \<^verbatim>\<open>gpt_buddy_bot/tokens.py\<close> does not do so: its table has the timestamp as primary key and
  its statement is \<^verbatim>\<open>INSERT OR REPLACE\<close>, so of two calls that read the same clock value the
  second replaces the row of the first and the ledger holds one row. The module
  \<^verbatim>\<open>pyrobbot/tokens.py\<close>, on the same two calls, holds both rows.
\<close>

theorem gpt_buddy_bot_insert_data_replaces:
  "fst (gpt_buddy_bot_insert_data fl (Some ''gpt-4'') 10 5 1700000000.25
     (fst (gpt_buddy_bot_insert_data fl (Some ''gpt-4'') 100 50 1700000000.25 [])))
   = [\<lparr>token_costs_row.timestamp = 1700000000.25, model = ''gpt-4'', n_input_tokens = 10, n_output_tokens = 5,
       cost_input_tokens =
         int_mul_float fl 10 (float_truediv fl (float_literal fl 0.03) (float_literal fl 1000)),
       cost_output_tokens =
         int_mul_float fl 5 (float_truediv fl (float_literal fl 0.06) (float_literal fl 1000))\<rparr>]
   \<and> map token_costs_row.n_input_tokens (fst (insert_data fl (Some ''gpt-4'') 10 5 1700000000
     (fst (insert_data fl (Some ''gpt-4'') 100 50 1700000000 [])))) = [100, 10]"
  by (simp add: gpt_buddy_bot_insert_data_def insert_data_def token_price_gpt4 sqlite_integer_def)


section \<open>Properties of the exchange store\<close>

lemma insert_mismatch:
  assumes "get_embedding_model db = Some a" "a \<noteq> b"
  shows "insert_message_exchange b dx de ct now cm x e db = (db, Inl ValueError)"
  using assms by (simp add: insert_message_exchange_def)

lemma insert_match:
  assumes "get_embedding_model db = Some a"
  shows "insert_message_exchange a dx de ct now cm x e db =
     (db\<lparr>messages_table := messages_table db @ [\<lparr>timestamp = now, chat_model = cm,
                      message_exchange = dx x, embedding = de e\<rparr>]\<rparr>, Inr ())"
  using assms by (simp add: insert_message_exchange_def)

lemma insert_first:
  assumes "get_embedding_model db = None"
  shows "insert_message_exchange a dx de ct now cm x e db =
     (db\<lparr>embedding_model_table := [(ct, a)], messages_table := messages_table db @ [\<lparr>timestamp = now, chat_model = cm,
                      message_exchange = dx x, embedding = de e\<rparr>]\<rparr>, Inr ())"
  using assms by (simp add: insert_message_exchange_def get_embedding_model_def init_database_def split: list.splits)

lemma insert_all_pinned:
  assumes "get_embedding_model db = Some a"
  shows "\<exists>db' new. insert_all a dx de calls db = (db', Inr ())
           \<and> embedding_model_table db' = embedding_model_table db
           \<and> triggers db' = triggers db
           \<and> messages_table db' = messages_table db @ new
           \<and> length new = length calls"
  using assms
proof (induction calls arbitrary: db)
  case Nil
  then show ?case by simp
next
  case (Cons c calls)
  obtain ct now cm x e where c: "c = (ct, now, cm, x, e)" by (cases c) auto
  let ?r = "\<lparr>timestamp = now, chat_model = cm, message_exchange = dx x, embedding = de e\<rparr>"
  let ?db1 = "db\<lparr>messages_table := messages_table db @ [?r]\<rparr>"
  have step: "insert_message_exchange a dx de ct now cm x e db = (?db1, Inr ())"
    using Cons.prems by (rule insert_match)
  have pin1: "get_embedding_model ?db1 = Some a"
    using Cons.prems by (simp add: get_embedding_model_def)
  from Cons.IH [OF pin1] obtain db' new where IH:
    "insert_all a dx de calls ?db1 = (db', Inr ())"
    "embedding_model_table db' = embedding_model_table ?db1"
    "triggers db' = triggers ?db1"
    "messages_table db' = messages_table ?db1 @ new"
    "length new = length calls"
    by blast
  have "insert_all a dx de (c # calls) db = (db', Inr ())"
    using step IH(1) by (simp add: c)
  moreover have "embedding_model_table db' = embedding_model_table db"
    using IH(2) by simp
  moreover have "triggers db' = triggers db"
    using IH(3) by simp
  moreover have "messages_table db' = messages_table db @ (?r # new)"
    using IH(4) by simp
  moreover have "length (?r # new) = length (c # calls)"
    using IH(5) by simp
  ultimately show ?case by blast
qed

text \<open>
  Claim C4. In a store whose pin is \<open>a\<close>, an object configured with another model \<open>b\<close>
  fails to insert (\<^verbatim>\<open>ValueError\<close>) and the store is left as it was. An object configured
  with \<open>a\<close> inserts any sequence of exchanges, and the table of the pin is unchanged by
  them. In a store without a pin, the first insert creates the pin from the configured
  model and the clock reading of that insert, and the inserts that follow leave it alone.
\<close>

theorem embedding_model_pin:
  "(get_embedding_model db = Some a \<and> a \<noteq> b \<longrightarrow>
      insert_message_exchange b dx de ct now cm x e db = (db, Inl ValueError))
   \<and> (get_embedding_model db = Some a \<longrightarrow>
      (\<exists>db'. insert_all a dx de calls db = (db', Inr ())
           \<and> embedding_model_table db' = embedding_model_table db
           \<and> get_embedding_model db' = Some a
           \<and> length (messages_table db') = length (messages_table db) + length calls))
   \<and> (get_embedding_model db = None \<longrightarrow>
      (\<exists>db'. insert_all a dx de ((ct, now, cm, x, e) # calls) db = (db', Inr ())
           \<and> embedding_model_table db' = [(ct, a)]
           \<and> get_embedding_model db' = Some a
           \<and> length (messages_table db') = length (messages_table db) + 1 + length calls))"
proof (intro conjI impI)
  assume "get_embedding_model db = Some a \<and> a \<noteq> b"
  then show "insert_message_exchange b dx de ct now cm x e db = (db, Inl ValueError)"
    by (simp add: insert_mismatch)
next
  assume pin: "get_embedding_model db = Some a"
  from insert_all_pinned [OF pin, of dx de calls] obtain db' where
    "insert_all a dx de calls db = (db', Inr ())"
    "embedding_model_table db' = embedding_model_table db"
    "length (messages_table db') = length (messages_table db) + length calls"
    by fastforce
  with pin show "\<exists>db'. insert_all a dx de calls db = (db', Inr ())
           \<and> embedding_model_table db' = embedding_model_table db
           \<and> get_embedding_model db' = Some a
           \<and> length (messages_table db') = length (messages_table db) + length calls"
    by (auto simp: get_embedding_model_def)
next
  assume nopin: "get_embedding_model db = None"
  let ?db1 = "db\<lparr>embedding_model_table := [(ct, a)], messages_table := messages_table db @ [\<lparr>timestamp = now, chat_model = cm,
                      message_exchange = dx x, embedding = de e\<rparr>]\<rparr>"
  have step: "insert_message_exchange a dx de ct now cm x e db = (?db1, Inr ())"
    using nopin by (rule insert_first)
  have pin1: "get_embedding_model ?db1 = Some a"
    by (simp add: get_embedding_model_def)
  from insert_all_pinned [OF pin1, of dx de calls] obtain db' where
    "insert_all a dx de calls ?db1 = (db', Inr ())"
    "embedding_model_table db' = embedding_model_table ?db1"
    "length (messages_table db') = length (messages_table ?db1) + length calls"
    by fastforce
  then show "\<exists>db'. insert_all a dx de ((ct, now, cm, x, e) # calls) db = (db', Inr ())
           \<and> embedding_model_table db' = [(ct, a)]
           \<and> get_embedding_model db' = Some a
           \<and> length (messages_table db') = length (messages_table db) + 1 + length calls"
    using step by (auto simp: get_embedding_model_def)
qed

theorem embedding_model_pin_witness:
  "get_embedding_model (create empty_file) = None
   \<and> (\<exists>db'. insert_all ''E'' json_dumps (\<lambda>_::unit. ''null'')
              [(100, 100, ''gpt-4'', hello_exchange, ()), (160, 160, ''gpt-4'', hello_exchange, ())]
              (create empty_file) = (db', Inr ())
          \<and> embedding_model_table db' = [(100, ''E'')]
          \<and> get_embedding_model db' = Some ''E''
          \<and> length (messages_table db') = 2)
   \<and> get_embedding_model \<lparr>embedding_model_table = [(100, ''E'')], messages_table = [], triggers = []\<rparr>
        = Some ''E''
   \<and> ''E'' \<noteq> ''F''
   \<and> insert_message_exchange ''F'' json_dumps (\<lambda>_::unit. ''null'') 170 170 ''gpt-4'' hello_exchange ()
        \<lparr>embedding_model_table = [(100, ''E'')], messages_table = [], triggers = []\<rparr>
      = (\<lparr>embedding_model_table = [(100, ''E'')], messages_table = [], triggers = []\<rparr>,
         Inl ValueError)"
proof -
  have h0: "get_embedding_model (create empty_file) = None"
    by (simp add: get_embedding_model_def create_def empty_file_def)
  have h1: "get_embedding_model
      \<lparr>embedding_model_table = [(100, ''E'')], messages_table = [], triggers = []\<rparr> = Some ''E''"
    by (simp add: get_embedding_model_def)
  have h2: "''E'' \<noteq> ''F''" by simp
  have len0: "messages_table (create empty_file) = []"
    by (simp add: create_def empty_file_def)
  from embedding_model_pin [of "create empty_file" "''E''" "''F''" json_dumps "\<lambda>_::unit. ''null''" 100 100
      "''gpt-4''" hello_exchange "()" "[(160, 160, ''gpt-4'', hello_exchange, ())]"]
    embedding_model_pin [of "\<lparr>embedding_model_table = [(100, ''E'')], messages_table = [], triggers = []\<rparr>"
      "''E''" "''F''" json_dumps "\<lambda>_::unit. ''null''" 170 170 "''gpt-4''" hello_exchange "()" "[]"]
    h0 h1 h2 len0
  show ?thesis by (simp add: numeral_2_eq_2)
qed

text \<open>
  An \<^verbatim>\<open>UPDATE\<close> of a stored row fails in a database whose triggers are those that
  \<^verbatim>\<open>create\<close> installs in a new file.
\<close>

lemma update_messages_fails:
  assumes "triggers db = triggers (create empty_file)"
    and "\<exists>r \<in> set (messages_table db). wher r"
  shows "update_messages wher setter db = (db, Inl (IntegrityError ''modification not allowed''))"
  using assms
  by (simp add: update_messages_def create_def empty_file_def fired_trigger_def
      create_trigger_if_not_exists_def)

text \<open>
  Claim C5. Every attempted update and every attempted delete of a stored exchange fails
  at the storage boundary. The code installs \<^verbatim>\<open>BEFORE UPDATE\<close> triggers only: in a new
  store with one exchange inserted, an \<^verbatim>\<open>UPDATE\<close> of the row fails and leaves the store as
  it was, but \<^verbatim>\<open>DELETE FROM messages\<close> succeeds and the row is gone.
\<close>

theorem delete_not_prevented:
  "(let (db, result) = insert_message_exchange ''full-history'' json_dumps (\<lambda>_::unit. ''null'')
                          100 100 ''gpt-4'' hello_exchange () (create empty_file)
    in result = Inr ()
       \<and> length (messages_table db) = 1
       \<and> update_messages (\<lambda>r. True) (\<lambda>r. r\<lparr>chat_model := ''gpt-3.5-turbo''\<rparr>) db
           = (db, Inl (IntegrityError ''modification not allowed''))
       \<and> delete_from_messages (\<lambda>r. True) db = (db\<lparr>messages_table := []\<rparr>, Inr ()))"
  by (simp add: insert_message_exchange_def get_embedding_model_def init_database_def create_def
      empty_file_def create_trigger_if_not_exists_def update_messages_def delete_from_messages_def
      fired_trigger_def)


section \<open>Properties of the context assembler\<close>

text \<open>
  Claim C9. When the selector returns \<open>history\<close>, \<^verbatim>\<open>get_context\<close> returns \<open>history\<close>
  followed by exactly one message, whose role is \<^verbatim>\<open>system\<close>, whose name is the configured
  display name and whose content is the fixed directive.
\<close>

theorem get_context_appends_directive:
  assumes "select_method msg = Inr history"
  shows "\<exists>sys_msg. get_context select_method system_name msg = Inr (history @ [sys_msg])
          \<and> sys_msg = [(str ''role'', str ''system''), (str ''name'', system_name),
               (str ''content'', str ''Considering the previous messages, answer the next message:'')]"
  using assms
  by (simp add: get_context_def make_list_of_context_msgs_def sys_directives_def)

theorem get_context_appends_directive_witness:
  "FullHistoryChatContext_select_relevant_history literal_eval_msgs hello_store (str ''How are you?'')
     = Inr hello_exchange
   \<and> get_context (FullHistoryChatContext_select_relevant_history literal_eval_msgs hello_store)
        (str ''Rob'') (str ''How are you?'')
     = Inr [[(str ''role'', str ''user''), (str ''content'', str ''hello'')],
            [(str ''role'', str ''assistant''), (str ''content'', str ''hi'')],
            [(str ''role'', str ''system''), (str ''name'', str ''Rob''),
             (str ''content'', str ''Considering the previous messages, answer the next message:'')]]"
proof -
  have h: "FullHistoryChatContext_select_relevant_history literal_eval_msgs hello_store
             (str ''How are you?'') = Inr hello_exchange"
    by (simp add: FullHistoryChatContext_select_relevant_history_def load_hello)
  from get_context_appends_directive
         [of "FullHistoryChatContext_select_relevant_history literal_eval_msgs hello_store"
             "str ''How are you?''" hello_exchange "str ''Rob''"] h
  show ?thesis by (simp add: hello_exchange_def)
qed


section \<open>Properties of the selector\<close>

subsection \<open>The pandas operations\<close>

lemma those_eq_Some: "those xs = Some ys \<longleftrightarrow> xs = map Some ys"
proof (induction xs arbitrary: ys)
  case Nil
  then show ?case by auto
next
  case (Cons x xs)
  then show ?case
    by (cases x) (auto split: option.splits)
qed

lemma series_apply_eq_Some: "series_apply f xs = Some ys \<longleftrightarrow> map f xs = map Some ys"
  by (simp add: series_apply_def those_eq_Some)

lemma series_apply_total:
  assumes "\<forall>x \<in> set xs. f x \<noteq> None"
  shows "series_apply f xs = Some (map (the \<circ> f) xs)"
  using assms by (simp add: series_apply_eq_Some)

lemma series_apply_append:
  "series_apply f (xs @ ys) = Some zs \<longleftrightarrow>
    (\<exists>as bs. zs = as @ bs \<and> series_apply f xs = Some as \<and> series_apply f ys = Some bs)"
  by (auto simp: series_apply_eq_Some map_eq_append_conv append_eq_map_conv)

lemma series_apply_None_or_Some:
  "series_apply f xs = None \<or> (\<exists>ys. series_apply f xs = Some ys)"
  by (cases "series_apply f xs") auto

lemma set_drop_duplicates [simp]: "set (drop_duplicates xs) = set xs"
  by (induction xs rule: drop_duplicates.induct) auto

lemma distinct_drop_duplicates [simp]: "distinct (drop_duplicates xs)"
  by (induction xs rule: drop_duplicates.induct) auto

lemma drop_duplicates_filter:
  "drop_duplicates (filter P xs) = filter P (drop_duplicates xs)"
proof (induction xs rule: drop_duplicates.induct)
  case 1
  then show ?case by simp
next
  case (2 x xs)
  have comm: "filter P (filter (\<lambda>y. y \<noteq> x) xs) = filter (\<lambda>y. y \<noteq> x) (filter P xs)"
    by (auto intro: filter_cong)
  show ?case
  proof (cases "P x")
    case True
    with 2 comm show ?thesis by simp
  next
    case False
    then have "filter P (filter (\<lambda>y. y \<noteq> x) xs) = filter P xs"
      by (auto intro: filter_cong)
    with 2 False show ?thesis by simp
  qed
qed

lemma drop_duplicates_distinct: "distinct xs \<Longrightarrow> drop_duplicates xs = xs"
proof (induction xs)
  case Nil
  then show ?case by simp
next
  case (Cons x xs)
  then have "filter (\<lambda>y. y \<noteq> x) xs = xs"
    by (auto intro: filter_True)
  with Cons show ?case by simp
qed

lemma drop_duplicates_append:
  "drop_duplicates (xs @ ys) = drop_duplicates xs @ filter (\<lambda>y. y \<notin> set xs) (drop_duplicates ys)"
proof (induction xs arbitrary: ys rule: drop_duplicates.induct)
  case 1
  then show ?case by simp
next
  case (2 x xs)
  have "drop_duplicates ((x # xs) @ ys)
      = x # drop_duplicates (filter (\<lambda>y. y \<noteq> x) xs @ filter (\<lambda>y. y \<noteq> x) ys)"
    by simp
  also have "\<dots> = x # drop_duplicates (filter (\<lambda>y. y \<noteq> x) xs)
      @ filter (\<lambda>y. y \<notin> set (filter (\<lambda>y. y \<noteq> x) xs)) (drop_duplicates (filter (\<lambda>y. y \<noteq> x) ys))"
    using 2 by simp
  also have "filter (\<lambda>y. y \<notin> set (filter (\<lambda>y. y \<noteq> x) xs)) (drop_duplicates (filter (\<lambda>y. y \<noteq> x) ys))
      = filter (\<lambda>y. y \<notin> set (x # xs)) (drop_duplicates ys)"
    by (auto simp: drop_duplicates_filter intro: filter_cong)
  finally show ?case by simp
qed

lemma takeWhile_filter_other:
  assumes "a \<noteq> x"
  shows "takeWhile (\<lambda>y. y \<noteq> x) (filter (\<lambda>y. y \<noteq> a) xs)
      = filter (\<lambda>y. y \<noteq> a) (takeWhile (\<lambda>y. y \<noteq> x) xs)"
proof (induct xs)
  case Nil
  show ?case by simp
next
  case (Cons b xs)
  with assms show ?case by (cases "b = a"; cases "b = x"; simp)
qed

lemma takeWhile_drop_duplicates:
  "takeWhile (\<lambda>y. y \<noteq> x) (drop_duplicates xs) = drop_duplicates (takeWhile (\<lambda>y. y \<noteq> x) xs)"
proof (induction xs rule: drop_duplicates.induct)
  case 1
  then show ?case by simp
next
  case (2 a xs)
  show ?case
  proof (cases "a = x")
    case True
    then show ?thesis by simp
  next
    case False
    with 2 show ?thesis by (simp add: takeWhile_filter_other)
  qed
qed

lemma count_list_drop_duplicates:
  "count_list (drop_duplicates xs) x = (if x \<in> set xs then 1 else 0)"
proof -
  have "count (mset (drop_duplicates xs)) x = (if x \<in> set (drop_duplicates xs) then 1 else 0)"
    using distinct_drop_duplicates [of xs] by (simp add: distinct_count_atmost_1)
  then show ?thesis by (simp add: count_mset)
qed

lemma first_rows_key: "map key (first_rows key xs) = drop_duplicates (map key xs)"
proof (induction key xs rule: first_rows.induct)
  case (1 key)
  then show ?case by simp
next
  case (2 key x xs)
  have "map key (filter (\<lambda>y. key y \<noteq> key x) xs) = filter (\<lambda>k. k \<noteq> key x) (map key xs)"
    by (simp add: filter_map comp_def)
  with 2 show ?case by simp
qed

lemma set_df_head: "set (df_head n xs) \<subseteq> set xs"
  by (auto simp: df_head_def dest: in_set_takeD)

lemma set_df_tail: "set (df_tail n xs) \<subseteq> set xs"
  by (auto simp: df_tail_def dest: in_set_dropD)

lemma df_head_all: "int (length xs) \<le> n \<Longrightarrow> df_head n xs = xs"
  by (auto simp: df_head_def)

lemma df_tail_all: "int (length xs) \<le> n \<Longrightarrow> df_tail n xs = xs"
  by (auto simp: df_tail_def)

lemma df_tail_suffix: "\<exists>older. xs = older @ df_tail n xs"
  by (simp add: df_tail_def) (metis append_take_drop_id)

lemma with_similarity_fst:
  assumes "with_similarity pe csim df emb = Some scored"
  shows "map fst scored = df"
proof -
  from assms obtain arrays where a: "series_apply pe (map embedding df) = Some arrays"
    and s: "scored = zip df (map (\<lambda>x. csim x emb) arrays)"
    by (auto simp: with_similarity_def split: option.splits)
  from a have "length arrays = length df"
    by (metis length_map series_apply_eq_Some)
  with s show ?thesis by simp
qed

lemma with_similarity_total:
  assumes "\<forall>r \<in> set df. pe (embedding r) \<noteq> None"
  shows "\<exists>scored. with_similarity pe csim df emb = Some scored"
proof -
  from assms have "\<forall>t \<in> set (map embedding df). pe t \<noteq> None" by simp
  from series_apply_total [OF this] show ?thesis
    by (simp add: with_similarity_def)
qed

lemma mset_sort_set:
  assumes "\<forall>xs. mset (srt xs) = mset xs"
  shows "set (srt xs) = set xs" "length (srt xs) = length xs"
  using assms by (metis mset_eq_setD, metis mset_eq_length)

subsection \<open>The selection\<close>

lemma selected_history_decompose:
  assumes "selected_history lit pe csim ss st df emb K1 K2 = Inr sel"
  shows "\<exists>scored sim_x last_x.
      with_similarity pe csim df emb = Some scored
    \<and> map fst scored = df
    \<and> series_apply lit (map (message_exchange \<circ> fst) (df_similar_chats ss st K1 scored)) = Some sim_x
    \<and> series_apply lit (map (message_exchange \<circ> fst) (df_last_n_chats K2 scored)) = Some last_x
    \<and> sel = drop_duplicates (sim_x @ last_x)"
proof -
  from assms obtain scored where sc: "with_similarity pe csim df emb = Some scored"
    by (auto simp: selected_history_def split: option.splits)
  with assms obtain xs where
    xs: "series_apply lit (map (message_exchange \<circ> fst) (df_context ss st K1 K2 scored)) = Some xs"
    and sel: "sel = drop_duplicates xs"
    by (auto simp: selected_history_def split: option.splits)
  from xs obtain sim_x last_x where "xs = sim_x @ last_x"
    "series_apply lit (map (message_exchange \<circ> fst) (df_similar_chats ss st K1 scored)) = Some sim_x"
    "series_apply lit (map (message_exchange \<circ> fst) (df_last_n_chats K2 scored)) = Some last_x"
    unfolding df_context_def map_append series_apply_append by blast
  with sc sel with_similarity_fst [OF sc] show ?thesis by blast
qed

lemma drop_duplicates_map_inj:
  "inj f \<Longrightarrow> drop_duplicates (map f xs) = map f (drop_duplicates xs)"
proof (induction xs rule: drop_duplicates.induct)
  case 1
  then show ?case by simp
next
  case (2 x xs)
  then show ?case
    by (simp add: filter_map comp_def inj_eq)
qed

text \<open>
  The rows read by \<^verbatim>\<open>selected_rows\<close> are the rows of the selected exchanges, in the order
  of the selection.
\<close>

lemma selected_rows_exchanges:
  assumes "selected_history lit pe csim ss st df emb K1 K2 = Inr sel"
  shows "\<exists>rows. selected_rows lit pe csim ss st df emb K1 K2 = Some rows
      \<and> map (lit \<circ> message_exchange) rows = map Some sel"
proof -
  from assms obtain scored where sc: "with_similarity pe csim df emb = Some scored"
    by (auto simp: selected_history_def split: option.splits)
  with assms obtain xs where
    xs: "series_apply lit (map (message_exchange \<circ> fst) (df_context ss st K1 K2 scored)) = Some xs"
    and sel: "sel = drop_duplicates xs"
    by (auto simp: selected_history_def split: option.splits)
  let ?ctx = "df_context ss st K1 K2 scored"
  from xs have m: "map (lit \<circ> message_exchange \<circ> fst) ?ctx = map Some xs"
    by (simp add: series_apply_eq_Some comp_def)
  have "map (lit \<circ> message_exchange) (map fst (first_rows (lit \<circ> message_exchange \<circ> fst) ?ctx))
      = map (lit \<circ> message_exchange \<circ> fst) (first_rows (lit \<circ> message_exchange \<circ> fst) ?ctx)"
    by (simp add: comp_def)
  also have "\<dots> = drop_duplicates (map (lit \<circ> message_exchange \<circ> fst) ?ctx)"
    by (rule first_rows_key)
  also have "\<dots> = map Some (drop_duplicates xs)"
    by (simp only: m drop_duplicates_map_inj [OF inj_Some])
  finally show ?thesis
    by (simp add: selected_rows_def sc sel)
qed

text \<open>
  Claim C2. An exchange selected both among the most similar rows and among the last rows
  appears exactly once in the selection, at the place of its first occurrence: the
  exchanges before it are those that stand before it among the most similar rows, each
  once.
\<close>

theorem selected_history_deduplicates:
  assumes "selected_history lit pe csim ss st df emb K1 K2 = Inr sel"
  shows "select_relevant_history lit pe csim ss st df emb K1 K2 = Inr (concat sel)
    \<and> (\<exists>scored sim_x last_x.
      with_similarity pe csim df emb = Some scored
    \<and> series_apply lit (map (message_exchange \<circ> fst) (df_similar_chats ss st K1 scored)) = Some sim_x
    \<and> series_apply lit (map (message_exchange \<circ> fst) (df_last_n_chats K2 scored)) = Some last_x
    \<and> sel = drop_duplicates (sim_x @ last_x)
    \<and> (\<forall>x \<in> set sim_x \<inter> set last_x.
          count_list sel x = 1
        \<and> takeWhile (\<lambda>y. y \<noteq> x) sel = drop_duplicates (takeWhile (\<lambda>y. y \<noteq> x) sim_x)))"
proof -
  have out: "select_relevant_history lit pe csim ss st df emb K1 K2 = Inr (concat sel)"
    using assms by (simp add: select_relevant_history_def)
  from selected_history_decompose [OF assms] obtain scored sim_x last_x where d:
    "with_similarity pe csim df emb = Some scored"
    "series_apply lit (map (message_exchange \<circ> fst) (df_similar_chats ss st K1 scored)) = Some sim_x"
    "series_apply lit (map (message_exchange \<circ> fst) (df_last_n_chats K2 scored)) = Some last_x"
    "sel = drop_duplicates (sim_x @ last_x)"
    by blast
  have "count_list sel x = 1
        \<and> takeWhile (\<lambda>y. y \<noteq> x) sel = drop_duplicates (takeWhile (\<lambda>y. y \<noteq> x) sim_x)"
    if "x \<in> set sim_x \<inter> set last_x" for x
  proof
    from that show "count_list sel x = 1"
      by (simp add: d(4) count_list_drop_duplicates)
    from that have "takeWhile (\<lambda>y. y \<noteq> x) (sim_x @ last_x) = takeWhile (\<lambda>y. y \<noteq> x) sim_x"
      by (auto simp: takeWhile_append)
    then show "takeWhile (\<lambda>y. y \<noteq> x) sel = drop_duplicates (takeWhile (\<lambda>y. y \<noteq> x) sim_x)"
      by (simp add: d(4) takeWhile_drop_duplicates)
  qed
  with d have "\<exists>scored sim_x last_x.
      with_similarity pe csim df emb = Some scored
    \<and> series_apply lit (map (message_exchange \<circ> fst) (df_similar_chats ss st K1 scored)) = Some sim_x
    \<and> series_apply lit (map (message_exchange \<circ> fst) (df_last_n_chats K2 scored)) = Some last_x
    \<and> sel = drop_duplicates (sim_x @ last_x)
    \<and> (\<forall>x \<in> set sim_x \<inter> set last_x.
          count_list sel x = 1
        \<and> takeWhile (\<lambda>y. y \<noteq> x) sel = drop_duplicates (takeWhile (\<lambda>y. y \<noteq> x) sim_x))"
    by blast
  with out show ?thesis by (rule conjI)
qed

text \<open>
  Claim C3, amended. The exchanges of the most similar rows come first, and these rows are
  in ascending order of their timestamps; after them come the exchanges of the last rows
  of the history that are not among them, in the order of the store. Nothing sorts the
  two parts together.
\<close>

theorem selected_history_order:
  assumes "ascending_by (timestamp \<circ> fst) st"
    and "selected_history lit pe csim ss st df emb K1 K2 = Inr sel"
  shows "select_relevant_history lit pe csim ss st df emb K1 K2 = Inr (concat sel)
    \<and> (\<exists>scored sim_x last_x.
      with_similarity pe csim df emb = Some scored
    \<and> map fst scored = df
    \<and> series_apply lit (map (message_exchange \<circ> fst) (df_similar_chats ss st K1 scored)) = Some sim_x
    \<and> series_apply lit (map (message_exchange \<circ> fst) (df_last_n_chats K2 scored)) = Some last_x
    \<and> sorted (map (timestamp \<circ> fst) (df_similar_chats ss st K1 scored))
    \<and> (\<exists>older. scored = older @ df_last_n_chats K2 scored)
    \<and> sel = drop_duplicates sim_x @ filter (\<lambda>x. x \<notin> set sim_x) (drop_duplicates last_x))"
proof -
  have out: "select_relevant_history lit pe csim ss st df emb K1 K2 = Inr (concat sel)"
    using assms(2) by (simp add: select_relevant_history_def)
  from selected_history_decompose [OF assms(2)] obtain scored sim_x last_x where d:
    "with_similarity pe csim df emb = Some scored"
    "map fst scored = df"
    "series_apply lit (map (message_exchange \<circ> fst) (df_similar_chats ss st K1 scored)) = Some sim_x"
    "series_apply lit (map (message_exchange \<circ> fst) (df_last_n_chats K2 scored)) = Some last_x"
    "sel = drop_duplicates (sim_x @ last_x)"
    by blast
  have "sorted (map (timestamp \<circ> fst) (df_similar_chats ss st K1 scored))"
    using assms(1) by (simp add: ascending_by_def df_similar_chats_def)
  moreover have "\<exists>older. scored = older @ df_last_n_chats K2 scored"
    unfolding df_last_n_chats_def by (rule df_tail_suffix)
  moreover have "sel = drop_duplicates sim_x @ filter (\<lambda>x. x \<notin> set sim_x) (drop_duplicates last_x)"
    by (simp add: d(5) drop_duplicates_append)
  ultimately have "\<exists>scored sim_x last_x.
      with_similarity pe csim df emb = Some scored
    \<and> map fst scored = df
    \<and> series_apply lit (map (message_exchange \<circ> fst) (df_similar_chats ss st K1 scored)) = Some sim_x
    \<and> series_apply lit (map (message_exchange \<circ> fst) (df_last_n_chats K2 scored)) = Some last_x
    \<and> sorted (map (timestamp \<circ> fst) (df_similar_chats ss st K1 scored))
    \<and> (\<exists>older. scored = older @ df_last_n_chats K2 scored)
    \<and> sel = drop_duplicates sim_x @ filter (\<lambda>x. x \<notin> set sim_x) (drop_duplicates last_x)"
    using d by blast
  with out show ?thesis by (rule conjI)
qed

text \<open>
  Claim C1, amended. When the history has at most \<open>max K1 K2\<close> rows, every row parses and
  no two rows hold the same exchange, the selector returns every stored exchange, each
  once.
\<close>

theorem selected_history_covers_short_history:
  assumes "descending_by snd ss"
    and "ascending_by (timestamp \<circ> fst) st"
    and "int (length df) \<le> max K1 K2"
    and "\<forall>r \<in> set df. pe (embedding r) \<noteq> None \<and> lit (message_exchange r) \<noteq> None"
    and "distinct (map (lit \<circ> message_exchange) df)"
  shows "\<exists>sel. selected_history lit pe csim ss st df emb K1 K2 = Inr sel
      \<and> select_relevant_history lit pe csim ss st df emb K1 K2 = Inr (concat sel)
      \<and> mset (map Some sel) = mset (map (lit \<circ> message_exchange) df)"
proof -
  from assms(4) with_similarity_total [of df pe csim emb]
  obtain scored where sc: "with_similarity pe csim df emb = Some scored" by blast
  have fst_scored: "map fst scored = df"
    using sc by (rule with_similarity_fst)
  then have len: "length scored = length df"
    by (metis length_map)
  have perm_ss: "\<forall>xs. mset (ss xs) = mset xs" and perm_st: "\<forall>xs. mset (st xs) = mset xs"
    using assms(1,2) by (simp_all add: descending_by_def ascending_by_def)
  let ?similar = "df_similar_chats ss st K1 scored"
  let ?last = "df_last_n_chats K2 scored"
  let ?ctx = "df_context ss st K1 K2 scored"
  have sim_sub: "set ?similar \<subseteq> set scored"
    using set_df_head [of K1 "ss scored"]
    by (simp add: df_similar_chats_def mset_sort_set(1) [OF perm_st] mset_sort_set(1) [OF perm_ss])
  have last_sub: "set ?last \<subseteq> set scored"
    by (simp add: df_last_n_chats_def set_df_tail)
  have cover: "set ?ctx = set scored"
  proof (cases "int (length df) \<le> K1")
    case True
    then have "df_head K1 (ss scored) = ss scored"
      by (simp add: df_head_all mset_sort_set(2) [OF perm_ss] len)
    then have "set ?similar = set scored"
      by (simp add: df_similar_chats_def mset_sort_set(1) [OF perm_st] mset_sort_set(1) [OF perm_ss])
    with last_sub show ?thesis by (auto simp: df_context_def)
  next
    case False
    with assms(3) have "int (length scored) \<le> K2" by (simp add: len)
    then have "?last = scored"
      by (simp add: df_last_n_chats_def df_tail_all)
    with sim_sub show ?thesis by (auto simp: df_context_def)
  qed
  have "\<forall>t \<in> set (map (message_exchange \<circ> fst) ?ctx). lit t \<noteq> None"
  proof
    fix t assume "t \<in> set (map (message_exchange \<circ> fst) ?ctx)"
    then obtain p where "p \<in> set scored" "t = message_exchange (fst p)"
      using cover by auto
    moreover from this(1) have "fst p \<in> set df"
      using fst_scored by (metis image_eqI set_map)
    ultimately show "lit t \<noteq> None" using assms(4) by blast
  qed
  from series_apply_total [OF this]
  have xs: "series_apply lit (map (message_exchange \<circ> fst) ?ctx)
      = Some (map (the \<circ> lit) (map (message_exchange \<circ> fst) ?ctx))" .
  let ?xs = "map (the \<circ> lit) (map (message_exchange \<circ> fst) ?ctx)"
  let ?sel = "drop_duplicates ?xs"
  have res: "selected_history lit pe csim ss st df emb K1 K2 = Inr ?sel"
    by (simp add: selected_history_def sc xs)
  then have flat: "select_relevant_history lit pe csim ss st df emb K1 K2 = Inr (concat ?sel)"
    by (simp add: select_relevant_history_def)
  have "set (map Some ?sel) = set (map (lit \<circ> message_exchange) df)"
  proof -
    have "set (map Some ?sel) = (\<lambda>p. Some (the (lit (message_exchange (fst p))))) ` set scored"
      using cover by (auto simp: image_image)
    also have "\<dots> = (\<lambda>p. lit (message_exchange (fst p))) ` set scored"
    proof (rule image_cong [OF refl])
      fix p assume "p \<in> set scored"
      then have "fst p \<in> set df"
        using fst_scored by (metis image_eqI set_map)
      with assms(4) show "Some (the (lit (message_exchange (fst p)))) = lit (message_exchange (fst p))"
        by auto
    qed
    also have "\<dots> = (lit \<circ> message_exchange) ` set (map fst scored)"
      by (auto simp: image_image)
    finally show ?thesis by (simp add: fst_scored)
  qed
  moreover have "distinct (map Some ?sel)"
    by (simp add: distinct_map)
  ultimately have "mset (map Some ?sel) = mset (map (lit \<circ> message_exchange) df)"
    using assms(5) set_eq_iff_mset_eq_distinct by blast
  with res flat show ?thesis by blast
qed


subsection \<open>The selection on concrete histories\<close>

lemma sqrt_25: "sqrt 25 = 5"
  by (rule real_sqrt_unique) auto

lemma cosine_values:
  "cosine_similarity [4, 3] [1, 0] = 4 / 5"
  "cosine_similarity [3, 4] [1, 0] = 3 / 5"
  "cosine_similarity [0, 1] [1, 0] = 0"
  "cosine_similarity [-3, 4] [1, 0] = - 3 / 5"
  "cosine_similarity [-4, 3] [1, 0] = - 4 / 5"
  "cosine_similarity [-1, 0] [1, 0] = - 1"
  "cosine_similarity [1, 0] [1, 0] = 1"
  by (simp_all add: cosine_similarity_def np_dot_def sqrt_25)

lemma embedding_texts:
  "literal_eval_ints ''[4, 3]'' = Some [4, 3]"
  "literal_eval_ints ''[3, 4]'' = Some [3, 4]"
  "literal_eval_ints ''[0, 1]'' = Some [0, 1]"
  "literal_eval_ints ''[-3, 4]'' = Some [-3, 4]"
  "literal_eval_ints ''[-4, 3]'' = Some [-4, 3]"
  "literal_eval_ints ''[-1, 0]'' = Some [-1, 0]"
  "literal_eval_ints ''[1, 0]'' = Some [1, 0]"
  by (simp_all add: codec_defs)

lemma exchange_texts:
  "literal_eval_msgs (exchange_text ''q1'' ''a1'') = Some (exchange ''q1'' ''a1'')"
  "literal_eval_msgs (exchange_text ''q2'' ''a2'') = Some (exchange ''q2'' ''a2'')"
  "literal_eval_msgs (exchange_text ''q3'' ''a3'') = Some (exchange ''q3'' ''a3'')"
  "literal_eval_msgs (exchange_text ''q4'' ''a4'') = Some (exchange ''q4'' ''a4'')"
  "literal_eval_msgs (exchange_text ''q5'' ''a5'') = Some (exchange ''q5'' ''a5'')"
  "literal_eval_msgs (exchange_text ''q6'' ''a6'') = Some (exchange ''q6'' ''a6'')"
  "literal_eval_msgs (exchange_text ''q7'' ''a7'') = Some (exchange ''q7'' ''a7'')"
  by (simp_all add: exchange_text_def exchange_def codec_defs)

lemma stored_row_sel:
  "timestamp (stored_row t q a e) = t"
  "chat_model (stored_row t q a e) = ''gpt-4''"
  "message_exchange (stored_row t q a e) = exchange_text q a"
  "embedding (stored_row t q a e) = e"
  by (simp_all add: stored_row_def)

lemma with_similarity_history7:
  "with_similarity literal_eval_ints cosine_similarity history7 [1, 0] = Some scored7"
  by (simp add: with_similarity_def series_apply_def history7_def scored7_def stored_row_sel
      embedding_texts cosine_values)

lemma df_context_scored7:
  "df_context (sort_descending snd) (sort_key (timestamp \<circ> fst)) 5 2 scored7 = context7"
  by (simp add: df_context_def df_similar_chats_def df_last_n_chats_def df_head_def df_tail_def
      sort_descending_def scored7_def context7_def stored_row_sel)

lemma exchanges_context7:
  "series_apply literal_eval_msgs (map (message_exchange \<circ> fst) context7) =
    Some [exchange ''q1'' ''a1'', exchange ''q2'' ''a2'', exchange ''q3'' ''a3'',
          exchange ''q4'' ''a4'', exchange ''q7'' ''a7'', exchange ''q6'' ''a6'',
          exchange ''q7'' ''a7'']"
  by (simp add: series_apply_def context7_def stored_row_sel exchange_texts)

lemma selected_history_history7:
  "selected_history literal_eval_msgs literal_eval_ints cosine_similarity (sort_descending snd)
      (sort_key (timestamp \<circ> fst)) history7 [1, 0] 5 2
   = Inr [exchange ''q1'' ''a1'', exchange ''q2'' ''a2'', exchange ''q3'' ''a3'',
          exchange ''q4'' ''a4'', exchange ''q7'' ''a7'', exchange ''q6'' ''a6'']"
  by (simp add: selected_history_def with_similarity_history7 df_context_scored7
      exchanges_context7)
     (simp add: exchange_def str_def)

lemma selected_rows_history7:
  "selected_rows literal_eval_msgs literal_eval_ints cosine_similarity (sort_descending snd)
      (sort_key (timestamp \<circ> fst)) history7 [1, 0] 5 2
   = Some [stored_row 1 ''q1'' ''a1'' ''[4, 3]'', stored_row 2 ''q2'' ''a2'' ''[3, 4]'',
           stored_row 3 ''q3'' ''a3'' ''[0, 1]'', stored_row 4 ''q4'' ''a4'' ''[-3, 4]'',
           stored_row 7 ''q7'' ''a7'' ''[1, 0]'', stored_row 6 ''q6'' ''a6'' ''[-1, 0]'']"
  by (simp add: selected_rows_def with_similarity_history7 df_context_scored7)
     (simp add: context7_def stored_row_sel exchange_texts exchange_def str_def)

lemma descending_by_sort_descending: "descending_by key (sort_descending key)"
  by (simp add: descending_by_def sort_descending_def rev_map [symmetric])

lemma ascending_by_sort_key: "ascending_by key (sort_key key)"
  by (simp add: ascending_by_def)

lemma with_similarity_history3:
  "with_similarity literal_eval_ints cosine_similarity history3 [1, 0] = Some scored3"
  by (simp add: with_similarity_def series_apply_def history3_def scored3_def stored_row_sel
      embedding_texts cosine_values)

lemma frames_scored3:
  "df_similar_chats (sort_descending snd) (sort_key (timestamp \<circ> fst)) 1 scored3
     = [(stored_row 3 ''q3'' ''a3'' ''[1, 0]'', 1)]"
  "df_last_n_chats 1 scored3 = [(stored_row 3 ''q3'' ''a3'' ''[1, 0]'', 1)]"
  "df_similar_chats (sort_descending snd) (sort_key (timestamp \<circ> fst)) 5 scored3 = scored3"
  "df_last_n_chats 2 scored3 = tl scored3"
  by (simp_all add: df_similar_chats_def df_last_n_chats_def df_head_def df_tail_def
      sort_descending_def scored3_def stored_row_sel)

lemma selected_history_history3_1_1:
  "selected_history literal_eval_msgs literal_eval_ints cosine_similarity (sort_descending snd)
      (sort_key (timestamp \<circ> fst)) history3 [1, 0] 1 1 = Inr [exchange ''q3'' ''a3'']"
  by (simp add: selected_history_def with_similarity_history3 df_context_def frames_scored3
      series_apply_def stored_row_sel exchange_texts)

lemma selected_history_history3_5_2:
  "selected_history literal_eval_msgs literal_eval_ints cosine_similarity (sort_descending snd)
      (sort_key (timestamp \<circ> fst)) history3 [1, 0] 5 2
    = Inr [exchange ''q1'' ''a1'', exchange ''q2'' ''a2'', exchange ''q3'' ''a3'']"
  by (simp add: selected_history_def with_similarity_history3 df_context_def frames_scored3)
     (simp add: scored3_def series_apply_def stored_row_sel exchange_texts exchange_def str_def)

text \<open>
  Claim C1 as stated fails: the history of seven rows has at most \<open>5 + 2\<close> rows and no
  two equal exchanges, and the exchange of its fifth row is not selected.
\<close>

theorem full_coverage_counterexample:
  "int (length history7) \<le> 5 + 2
   \<and> distinct (map (literal_eval_msgs \<circ> message_exchange) history7)
   \<and> literal_eval_msgs (message_exchange (history7 ! 4)) = Some (exchange ''q5'' ''a5'')
   \<and> (\<exists>sel. selected_history literal_eval_msgs literal_eval_ints cosine_similarity
              (sort_descending snd) (sort_key (timestamp \<circ> fst)) history7 [1, 0] 5 2 = Inr sel
          \<and> exchange ''q5'' ''a5'' \<notin> set sel)"
proof (intro conjI)
  show "int (length history7) \<le> 5 + 2"
    by (simp add: history7_def)
  show "distinct (map (literal_eval_msgs \<circ> message_exchange) history7)"
    by (simp add: history7_def stored_row_sel exchange_texts) (simp add: exchange_def str_def)
  show "literal_eval_msgs (message_exchange (history7 ! 4)) = Some (exchange ''q5'' ''a5'')"
    by (simp add: history7_def stored_row_sel exchange_texts)
  show "\<exists>sel. selected_history literal_eval_msgs literal_eval_ints cosine_similarity
              (sort_descending snd) (sort_key (timestamp \<circ> fst)) history7 [1, 0] 5 2 = Inr sel
          \<and> exchange ''q5'' ''a5'' \<notin> set sel"
    by (simp add: selected_history_history7) (simp add: exchange_def str_def)
qed

text \<open>
  Claim C3 as stated fails. The seven rows of the history have the timestamps 1 to 7 and hold
  the exchanges \<open>q1/a1\<close> to \<open>q7/a7\<close>. In the list returned by the selector the messages of
  the exchange stored at timestamp 7 stand before the messages of the exchange stored at
  timestamp 6: the rows of the selected exchanges have the timestamps 1, 2, 3, 4, 7, 6.
\<close>

theorem chronological_order_counterexample:
  "select_relevant_history literal_eval_msgs literal_eval_ints cosine_similarity
       (sort_descending snd) (sort_key (timestamp \<circ> fst)) history7 [1, 0] 5 2
     = Inr (exchange ''q1'' ''a1'' @ exchange ''q2'' ''a2'' @ exchange ''q3'' ''a3''
            @ exchange ''q4'' ''a4'' @ exchange ''q7'' ''a7'' @ exchange ''q6'' ''a6'')
   \<and> map (\<lambda>r. (timestamp r, literal_eval_msgs (message_exchange r))) history7
     = [(1, Some (exchange ''q1'' ''a1'')), (2, Some (exchange ''q2'' ''a2'')),
        (3, Some (exchange ''q3'' ''a3'')), (4, Some (exchange ''q4'' ''a4'')),
        (5, Some (exchange ''q5'' ''a5'')), (6, Some (exchange ''q6'' ''a6'')),
        (7, Some (exchange ''q7'' ''a7''))]
   \<and> (\<exists>rows. selected_rows literal_eval_msgs literal_eval_ints cosine_similarity
              (sort_descending snd) (sort_key (timestamp \<circ> fst)) history7 [1, 0] 5 2 = Some rows
        \<and> map (literal_eval_msgs \<circ> message_exchange) rows
          = map Some [exchange ''q1'' ''a1'', exchange ''q2'' ''a2'', exchange ''q3'' ''a3'',
                      exchange ''q4'' ''a4'', exchange ''q7'' ''a7'', exchange ''q6'' ''a6'']
        \<and> map timestamp rows = [1, 2, 3, 4, 7, 6]
        \<and> \<not> sorted (map timestamp rows))"
proof (intro conjI)
  show "select_relevant_history literal_eval_msgs literal_eval_ints cosine_similarity
       (sort_descending snd) (sort_key (timestamp \<circ> fst)) history7 [1, 0] 5 2
     = Inr (exchange ''q1'' ''a1'' @ exchange ''q2'' ''a2'' @ exchange ''q3'' ''a3''
            @ exchange ''q4'' ''a4'' @ exchange ''q7'' ''a7'' @ exchange ''q6'' ''a6'')"
    by (simp add: select_relevant_history_def selected_history_history7)
  show "map (\<lambda>r. (timestamp r, literal_eval_msgs (message_exchange r))) history7
     = [(1, Some (exchange ''q1'' ''a1'')), (2, Some (exchange ''q2'' ''a2'')),
        (3, Some (exchange ''q3'' ''a3'')), (4, Some (exchange ''q4'' ''a4'')),
        (5, Some (exchange ''q5'' ''a5'')), (6, Some (exchange ''q6'' ''a6'')),
        (7, Some (exchange ''q7'' ''a7''))]"
    by (simp add: history7_def stored_row_sel exchange_texts)
  show "\<exists>rows. selected_rows literal_eval_msgs literal_eval_ints cosine_similarity
              (sort_descending snd) (sort_key (timestamp \<circ> fst)) history7 [1, 0] 5 2 = Some rows
        \<and> map (literal_eval_msgs \<circ> message_exchange) rows
          = map Some [exchange ''q1'' ''a1'', exchange ''q2'' ''a2'', exchange ''q3'' ''a3'',
                      exchange ''q4'' ''a4'', exchange ''q7'' ''a7'', exchange ''q6'' ''a6'']
        \<and> map timestamp rows = [1, 2, 3, 4, 7, 6]
        \<and> \<not> sorted (map timestamp rows)"
    by (simp add: selected_rows_history7 stored_row_sel exchange_texts)
qed

theorem selected_history_deduplicates_witness:
  "selected_history literal_eval_msgs literal_eval_ints cosine_similarity (sort_descending snd)
      (sort_key (timestamp \<circ> fst)) history3 [1, 0] 1 1 = Inr [exchange ''q3'' ''a3'']
   \<and> select_relevant_history literal_eval_msgs literal_eval_ints cosine_similarity
      (sort_descending snd) (sort_key (timestamp \<circ> fst)) history3 [1, 0] 1 1
      = Inr (exchange ''q3'' ''a3'')
   \<and> (\<exists>sim_x last_x.
        series_apply literal_eval_msgs (map (message_exchange \<circ> fst)
          (df_similar_chats (sort_descending snd) (sort_key (timestamp \<circ> fst)) 1 scored3)) = Some sim_x
      \<and> series_apply literal_eval_msgs (map (message_exchange \<circ> fst)
          (df_last_n_chats 1 scored3)) = Some last_x
      \<and> exchange ''q3'' ''a3'' \<in> set sim_x \<inter> set last_x
      \<and> count_list [exchange ''q3'' ''a3''] (exchange ''q3'' ''a3'') = 1
      \<and> takeWhile (\<lambda>y. y \<noteq> exchange ''q3'' ''a3'') [exchange ''q3'' ''a3'']
          = drop_duplicates (takeWhile (\<lambda>y. y \<noteq> exchange ''q3'' ''a3'') sim_x))"
proof -
  have h: "selected_history literal_eval_msgs literal_eval_ints cosine_similarity
      (sort_descending snd) (sort_key (timestamp \<circ> fst)) history3 [1, 0] 1 1
      = Inr [exchange ''q3'' ''a3'']"
    by (rule selected_history_history3_1_1)
  note dedup = selected_history_deduplicates [OF h]
  from dedup have out: "select_relevant_history literal_eval_msgs literal_eval_ints
      cosine_similarity (sort_descending snd) (sort_key (timestamp \<circ> fst)) history3 [1, 0] 1 1
      = Inr (exchange ''q3'' ''a3'')"
    by simp
  from dedup obtain scored sim_x last_x where d:
    "with_similarity literal_eval_ints cosine_similarity history3 [1, 0] = Some scored"
    "series_apply literal_eval_msgs (map (message_exchange \<circ> fst)
       (df_similar_chats (sort_descending snd) (sort_key (timestamp \<circ> fst)) 1 scored)) = Some sim_x"
    "series_apply literal_eval_msgs (map (message_exchange \<circ> fst)
       (df_last_n_chats 1 scored)) = Some last_x"
    "\<forall>x \<in> set sim_x \<inter> set last_x.
        count_list [exchange ''q3'' ''a3''] x = 1
      \<and> takeWhile (\<lambda>y. y \<noteq> x) [exchange ''q3'' ''a3'']
          = drop_duplicates (takeWhile (\<lambda>y. y \<noteq> x) sim_x)"
    by blast
  from d(1) have sc: "scored = scored3"
    by (simp add: with_similarity_history3)
  from d(2) have sim: "sim_x = [exchange ''q3'' ''a3'']"
    by (simp add: sc frames_scored3 series_apply_def stored_row_sel exchange_texts)
  from d(3) have last: "last_x = [exchange ''q3'' ''a3'']"
    by (simp add: sc frames_scored3 series_apply_def stored_row_sel exchange_texts)
  have mem: "exchange ''q3'' ''a3'' \<in> set sim_x \<inter> set last_x"
    by (simp add: sim last)
  with d(4) have "count_list [exchange ''q3'' ''a3''] (exchange ''q3'' ''a3'') = 1
      \<and> takeWhile (\<lambda>y. y \<noteq> exchange ''q3'' ''a3'') [exchange ''q3'' ''a3'']
          = drop_duplicates (takeWhile (\<lambda>y. y \<noteq> exchange ''q3'' ''a3'') sim_x)"
    by blast
  with h out d(2,3) mem show ?thesis
    unfolding sc by blast
qed

theorem selected_history_order_witness:
  "ascending_by (timestamp \<circ> fst) (sort_key (timestamp \<circ> fst) :: (messages_row \<times> real) list \<Rightarrow> _)
   \<and> selected_history literal_eval_msgs literal_eval_ints cosine_similarity (sort_descending snd)
        (sort_key (timestamp \<circ> fst)) history7 [1, 0] 5 2
      = Inr [exchange ''q1'' ''a1'', exchange ''q2'' ''a2'', exchange ''q3'' ''a3'',
             exchange ''q4'' ''a4'', exchange ''q7'' ''a7'', exchange ''q6'' ''a6'']
   \<and> select_relevant_history literal_eval_msgs literal_eval_ints cosine_similarity
        (sort_descending snd) (sort_key (timestamp \<circ> fst)) history7 [1, 0] 5 2
      = Inr (concat [exchange ''q1'' ''a1'', exchange ''q2'' ''a2'', exchange ''q3'' ''a3'',
             exchange ''q4'' ''a4'', exchange ''q7'' ''a7'', exchange ''q6'' ''a6''])
   \<and> (\<exists>scored sim_x last_x.
        with_similarity literal_eval_ints cosine_similarity history7 [1, 0] = Some scored
      \<and> map fst scored = history7
      \<and> series_apply literal_eval_msgs (map (message_exchange \<circ> fst)
          (df_similar_chats (sort_descending snd) (sort_key (timestamp \<circ> fst)) 5 scored)) = Some sim_x
      \<and> series_apply literal_eval_msgs (map (message_exchange \<circ> fst)
          (df_last_n_chats 2 scored)) = Some last_x
      \<and> sorted (map (timestamp \<circ> fst)
          (df_similar_chats (sort_descending snd) (sort_key (timestamp \<circ> fst)) 5 scored))
      \<and> (\<exists>older. scored = older @ df_last_n_chats 2 scored)
      \<and> [exchange ''q1'' ''a1'', exchange ''q2'' ''a2'', exchange ''q3'' ''a3'',
          exchange ''q4'' ''a4'', exchange ''q7'' ''a7'', exchange ''q6'' ''a6'']
         = drop_duplicates sim_x @ filter (\<lambda>x. x \<notin> set sim_x) (drop_duplicates last_x))"
proof -
  have h1: "ascending_by (timestamp \<circ> fst)
      (sort_key (timestamp \<circ> fst) :: (messages_row \<times> real) list \<Rightarrow> _)"
    by (rule ascending_by_sort_key)
  have h2: "selected_history literal_eval_msgs literal_eval_ints cosine_similarity
      (sort_descending snd) (sort_key (timestamp \<circ> fst)) history7 [1, 0] 5 2
      = Inr [exchange ''q1'' ''a1'', exchange ''q2'' ''a2'', exchange ''q3'' ''a3'',
             exchange ''q4'' ''a4'', exchange ''q7'' ''a7'', exchange ''q6'' ''a6'']"
    by (rule selected_history_history7)
  from selected_history_order [OF h1 h2] h1 h2 show ?thesis
    by blast
qed

theorem selected_history_covers_short_history_witness:
  "descending_by snd (sort_descending snd :: (messages_row \<times> real) list \<Rightarrow> _)
   \<and> ascending_by (timestamp \<circ> fst) (sort_key (timestamp \<circ> fst) :: (messages_row \<times> real) list \<Rightarrow> _)
   \<and> int (length history3) \<le> max 5 2
   \<and> list_all (\<lambda>r. literal_eval_ints (embedding r) \<noteq> None
          \<and> literal_eval_msgs (message_exchange r) \<noteq> None) history3
   \<and> distinct (map (literal_eval_msgs \<circ> message_exchange) history3)
   \<and> selected_history literal_eval_msgs literal_eval_ints cosine_similarity (sort_descending snd)
        (sort_key (timestamp \<circ> fst)) history3 [1, 0] 5 2
      = Inr [exchange ''q1'' ''a1'', exchange ''q2'' ''a2'', exchange ''q3'' ''a3'']
   \<and> (\<exists>sel. selected_history literal_eval_msgs literal_eval_ints cosine_similarity
          (sort_descending snd) (sort_key (timestamp \<circ> fst)) history3 [1, 0] 5 2 = Inr sel
        \<and> select_relevant_history literal_eval_msgs literal_eval_ints cosine_similarity
          (sort_descending snd) (sort_key (timestamp \<circ> fst)) history3 [1, 0] 5 2 = Inr (concat sel)
        \<and> mset (map Some sel) = mset (map (literal_eval_msgs \<circ> message_exchange) history3))"
proof -
  have h1: "descending_by snd (sort_descending snd :: (messages_row \<times> real) list \<Rightarrow> _)"
    by (rule descending_by_sort_descending)
  have h2: "ascending_by (timestamp \<circ> fst)
      (sort_key (timestamp \<circ> fst) :: (messages_row \<times> real) list \<Rightarrow> _)"
    by (rule ascending_by_sort_key)
  have h3: "int (length history3) \<le> max 5 2"
    by (simp add: history3_def)
  have h4: "\<forall>r \<in> set history3. literal_eval_ints (embedding r) \<noteq> None
          \<and> literal_eval_msgs (message_exchange r) \<noteq> None"
    by (simp add: history3_def stored_row_sel embedding_texts exchange_texts)
  have h5: "distinct (map (literal_eval_msgs \<circ> message_exchange) history3)"
    by (simp add: history3_def stored_row_sel exchange_texts) (simp add: exchange_def str_def)
  from h4 have h4': "list_all (\<lambda>r. literal_eval_ints (embedding r) \<noteq> None
          \<and> literal_eval_msgs (message_exchange r) \<noteq> None) history3"
    by (simp add: list_all_iff)
  from selected_history_covers_short_history
         [OF h1 h2 h3 h4 h5, of cosine_similarity "[1, 0]"]
    h1 h2 h3 h4' h5 selected_history_history3_5_2
  show ?thesis by blast
qed


section \<open>Properties of the usage summary\<close>
























section \<open>Storing and loading an exchange\<close>

text \<open>
  On a list of dictionaries with distinct keys and strings of the basic multilingual plane,
  \<^verbatim>\<open>ast.literal_eval\<close> reads back what \<^verbatim>\<open>json.dumps\<close> wrote.
\<close>

lemma hex_value_hex_digit:
  assumes "d < 16"
  shows "hex_value (hex_digit d) = Some d"
proof -
  have "list_all (\<lambda>d. hex_value (hex_digit d) = Some d) [0..<16]"
    by code_simp
  then have "\<forall>d \<in> set [0..<16]. hex_value (hex_digit d) = Some d"
    by (simp only: list_all_iff)
  with assms show ?thesis by simp
qed

lemma hex4_value:
  fixes c :: nat
  assumes "c < 65536"
  shows "(c div 4096 mod 16) * 4096 + (c div 256 mod 16) * 256 + (c div 16 mod 16) * 16 + c mod 16 = c"
proof -
  have a: "c mod 16 + 16 * (c div 16) = c" by simp
  have b: "(c div 16) mod 16 + 16 * (c div 16 div 16) = c div 16" by simp
  have d: "(c div 256) mod 16 + 16 * (c div 256 div 16) = c div 256" by simp
  have e: "c div 16 div 16 = c div 256" "c div 256 div 16 = c div 4096"
    by (simp_all add: div_mult2_eq [symmetric])
  have f: "c div 4096 mod 16 = c div 4096"
    using assms by simp
  from a b d e f show ?thesis by linarith
qed


lemma string_body_unicode_escape:
  assumes "c < 65536"
  shows "string_body (CHR 0x5C # CHR ''u'' # hex4 c @ rest) = cons_result c (string_body rest)"
proof -
  have d: "c div 4096 mod 16 < 16" "c div 256 mod 16 < 16" "c div 16 mod 16 < 16" "c mod 16 < 16"
    by simp_all
  show ?thesis
    by (simp add: hex4_def hex_value_hex_digit [OF d(1)] hex_value_hex_digit [OF d(2)]
        hex_value_hex_digit [OF d(3)] hex_value_hex_digit [OF d(4)] hex4_value [OF assms])
qed

lemma char_of_neq:
  fixes c :: nat
  assumes "c < 256" "c \<noteq> of_char k"
  shows "char_of c \<noteq> k"
proof
  assume "char_of c = k"
  then have "of_char (char_of c) = (of_char k :: nat)" by simp
  with assms show False by simp
qed

lemma string_body_printable:
  assumes "0x20 \<le> c" "c \<le> 0x7E" "c \<noteq> 0x22" "c \<noteq> 0x5C"
  shows "string_body (char_of c # rest) = cons_result c (string_body rest)"
proof -
  have lt: "c < 256" using assms by simp
  have oc: "of_char (char_of c) = c"
    using lt by simp
  have "char_of c \<noteq> CHR 0x22" "char_of c \<noteq> CHR 0x0A" "char_of c \<noteq> CHR 0x5C"
    using assms by (auto intro!: char_of_neq [OF lt])
  then show ?thesis
    using assms by (simp add: oc)
qed

lemma string_body_escape_char:
  assumes "c < 0x10000"
  shows "string_body (escape_char c @ rest) = cons_result c (string_body rest)"
proof -
  consider "c = 0x5C" | "c = 0x22" | "c = 0x08" | "c = 0x0C" | "c = 0x0A" | "c = 0x0D" | "c = 0x09"
    | "0x20 \<le> c" "c \<le> 0x7E" "c \<noteq> 0x22" "c \<noteq> 0x5C"
    | "c \<noteq> 0x5C" "c \<noteq> 0x22" "c \<noteq> 0x08" "c \<noteq> 0x0C" "c \<noteq> 0x0A" "c \<noteq> 0x0D" "c \<noteq> 0x09"
      "\<not> (0x20 \<le> c \<and> c \<le> 0x7E)"
    by blast
  then show ?thesis
  proof cases
    case 8
    then show ?thesis
      by (simp add: escape_char_def string_body_printable del: string_body.simps)
  next
    case 9
    then show ?thesis
      using assms string_body_unicode_escape [of c rest]
      by (auto simp add: escape_char_def simp del: string_body.simps)
  qed (simp_all add: escape_char_def simple_escape_def)
qed

lemma string_body_encode:
  assumes "\<forall>c \<in> set s. c < 0x10000"
  shows "string_body (concat (map escape_char s) @ CHR 0x22 # rest) = Some (s, rest)"
  using assms
proof (induction s)
  case Nil
  then show ?case by simp
next
  case (Cons c s)
  then show ?case
    by (simp add: string_body_escape_char cons_result_def del: string_body.simps)
qed

lemma tokens_string:
  assumes "bmp s"
  shows "tokens (encode_basestring_ascii s @ rest) = map_option (Cons (STRING s)) (tokens rest)"
proof -
  from assms have "\<forall>c \<in> set s. c < 0x10000"
    by (simp add: bmp_def list_all_iff)
  from string_body_encode [OF this, of rest] show ?thesis
    by (simp add: encode_basestring_ascii_def)
qed

lemma tokens_item:
  assumes "bmp k" "bmp v"
  shows "tokens (encode_basestring_ascii k @ '': '' @ encode_basestring_ascii v @ rest)
    = map_option (\<lambda>ts. STRING k # COLON # STRING v # ts) (tokens rest)"
proof -
  have "tokens ('': '' @ encode_basestring_ascii v @ rest)
      = map_option (\<lambda>ts. COLON # STRING v # ts) (tokens rest)"
    by (simp add: tokens_string [OF assms(2)] option.map_comp comp_def)
  then show ?thesis
    by (simp add: tokens_string [OF assms(1)] option.map_comp comp_def)
qed

lemma dumps_dict_item_text: "dumps_dict d = ''{'' @ join '', '' (map item_text d) @ ''}''"
proof -
  have "(\<lambda>(k, v). encode_basestring_ascii k @ '': '' @ encode_basestring_ascii v) = item_text"
    by (auto simp: item_text_def fun_eq_iff)
  then show ?thesis
    by (simp add: dumps_dict_def)
qed

lemma tokens_item_text:
  assumes "bmp k" "bmp v"
  shows "tokens (item_text (k, v) @ rest)
    = map_option (\<lambda>ts. STRING k # COLON # STRING v # ts) (tokens rest)"
  using tokens_item [OF assms, of rest] by (simp add: item_text_def)

lemma tokens_comma:
  "tokens ('', '' @ text) = map_option (Cons COMMA) (tokens text)"
  by simp

lemma tokens_items:
  assumes "list_all (\<lambda>kv. bmp (fst kv) \<and> bmp (snd kv)) d"
  shows "tokens (join '', '' (map item_text d) @ rest)
    = map_option (\<lambda>ts. item_tokens d @ ts) (tokens rest)"
  using assms
proof (induction d arbitrary: rest rule: item_tokens.induct)
  case 1
  then show ?case by (simp add: option.map_ident)
next
  case (2 k v)
  then have "bmp k" "bmp v" by simp_all
  from tokens_item_text [OF this, of rest] show ?case by simp
next
  case (3 k v kv kvs)
  from "3.prems" have bk: "bmp k" and bv: "bmp v"
    and rest_ok: "list_all (\<lambda>kv. bmp (fst kv) \<and> bmp (snd kv)) (kv # kvs)"
    by simp_all
  let ?tail = "join '', '' (map item_text (kv # kvs)) @ rest"
  have "join '', '' (map item_text ((k, v) # kv # kvs)) @ rest
      = item_text (k, v) @ ('', '' @ ?tail)"
    by simp
  then have "tokens (join '', '' (map item_text ((k, v) # kv # kvs)) @ rest)
      = map_option (\<lambda>ts. STRING k # COLON # STRING v # ts) (tokens ('', '' @ ?tail))"
    by (simp only: tokens_item_text [OF bk bv])
  also have "tokens ('', '' @ ?tail) = map_option (Cons COMMA) (tokens ?tail)"
    by (rule tokens_comma)
  also have "tokens ?tail = map_option (\<lambda>ts. item_tokens (kv # kvs) @ ts) (tokens rest)"
    by (rule "3.IH" [OF rest_ok])
  finally show ?case
    by (simp add: option.map_comp comp_def)
qed

lemma tokens_dict:
  assumes "plain_dict d"
  shows "tokens (dumps_dict d @ rest) = map_option (\<lambda>ts. dict_tokens d @ ts) (tokens rest)"
proof -
  from assms have b: "list_all (\<lambda>kv. bmp (fst kv) \<and> bmp (snd kv)) d"
    by (simp add: plain_dict_def)
  have "dumps_dict d @ rest = CHR ''{'' # (join '', '' (map item_text d) @ (''}'' @ rest))"
    by (simp add: dumps_dict_item_text)
  then have "tokens (dumps_dict d @ rest)
      = map_option (Cons LBRACE) (tokens (join '', '' (map item_text d) @ (''}'' @ rest)))"
    by simp
  also have "tokens (join '', '' (map item_text d) @ (''}'' @ rest))
      = map_option (\<lambda>ts. item_tokens d @ ts) (tokens (''}'' @ rest))"
    by (rule tokens_items [OF b])
  also have "tokens (''}'' @ rest) = map_option (Cons RBRACE) (tokens rest)"
    by simp
  finally show ?thesis
    by (simp add: dict_tokens_def option.map_comp comp_def)
qed

lemma tokens_dicts:
  assumes "list_all plain_dict xs"
  shows "tokens (join '', '' (map dumps_dict xs) @ rest)
    = map_option (\<lambda>ts. dicts_tokens xs @ ts) (tokens rest)"
  using assms
proof (induction xs arbitrary: rest rule: dicts_tokens.induct)
  case 1
  then show ?case by (simp add: option.map_ident)
next
  case (2 d)
  then have "plain_dict d" by simp
  from tokens_dict [OF this, of rest] show ?case by simp
next
  case (3 d e es)
  from "3.prems" have pd: "plain_dict d" and rest_ok: "list_all plain_dict (e # es)"
    by simp_all
  let ?tail = "join '', '' (map dumps_dict (e # es)) @ rest"
  have "join '', '' (map dumps_dict (d # e # es)) @ rest = dumps_dict d @ ('', '' @ ?tail)"
    by simp
  then have "tokens (join '', '' (map dumps_dict (d # e # es)) @ rest)
      = map_option (\<lambda>ts. dict_tokens d @ ts) (tokens ('', '' @ ?tail))"
    by (simp only: tokens_dict [OF pd])
  also have "tokens ('', '' @ ?tail) = map_option (Cons COMMA) (tokens ?tail)"
    by (rule tokens_comma)
  also have "tokens ?tail = map_option (\<lambda>ts. dicts_tokens (e # es) @ ts) (tokens rest)"
    by (rule "3.IH" [OF rest_ok])
  finally show ?case
    by (simp add: option.map_comp comp_def)
qed

lemma tokens_json_dumps:
  assumes "list_all plain_dict xs"
  shows "tokens (json_dumps xs) = Some (LBRACKET # dicts_tokens xs @ [RBRACKET])"
proof -
  have "json_dumps xs = CHR ''['' # (join '', '' (map dumps_dict xs) @ '']'')"
    by (simp add: json_dumps_def)
  then have "tokens (json_dumps xs)
      = map_option (Cons LBRACKET) (tokens (join '', '' (map dumps_dict xs) @ '']''))"
    by simp
  also have "tokens (join '', '' (map dumps_dict xs) @ '']'')
      = map_option (\<lambda>ts. dicts_tokens xs @ ts) (tokens '']'')"
    by (rule tokens_dicts [OF assms])
  also have "tokens '']'' = Some [RBRACKET]"
    by simp
  finally show ?thesis by simp
qed


lemma dict_items_item_tokens:
  assumes "d \<noteq> []"
  shows "dict_items (item_tokens d @ RBRACE # ts) = Some (d, ts)"
  using assms
proof (induction d rule: item_tokens.induct)
  case 1
  then show ?case by simp
next
  case (2 k v)
  show ?case by simp
next
  case (3 k v kv kvs)
  then show ?case by (simp add: cons_result_def)
qed

lemma foldl_dict_set:
  assumes "distinct (map fst (acc @ d))"
  shows "foldl dict_set acc d = acc @ d"
  using assms
proof (induction d arbitrary: acc)
  case Nil
  then show ?case by simp
next
  case (Cons kv d)
  then have "fst kv \<notin> set (map fst acc)" by auto
  then have "dict_set acc kv = acc @ [kv]"
    by (simp add: dict_set_def)
  moreover from Cons.prems have "distinct (map fst ((acc @ [kv]) @ d))" by simp
  ultimately show ?case
    using Cons.IH [of "acc @ [kv]"] by simp
qed

lemma hd_item_tokens:
  assumes "d \<noteq> []"
  shows "\<exists>k ts. item_tokens d = STRING k # ts"
  using assms by (induction d rule: item_tokens.induct) auto

lemma dict_display_dict_tokens:
  assumes "distinct (map fst d)"
  shows "dict_display (dict_tokens d @ ts) = Some (d, ts)"
proof (cases "d = []")
  case True
  then show ?thesis by (simp add: dict_display_def dict_tokens_def)
next
  case False
  from hd_item_tokens [OF False] obtain k rest where h: "item_tokens d = STRING k # rest"
    by blast
  have "dict_items (item_tokens d @ RBRACE # ts) = Some (d, ts)"
    by (rule dict_items_item_tokens [OF False])
  moreover have "foldl dict_set [] d = d"
    using foldl_dict_set [of "[]" d] assms by simp
  moreover have "item_tokens d @ RBRACE # ts \<noteq> [] \<and> hd (item_tokens d @ RBRACE # ts) \<noteq> RBRACE"
    by (simp add: h)
  ultimately show ?thesis
    by (simp add: dict_display_def dict_tokens_def)
qed

lemma dict_list_dicts_tokens:
  assumes "xs \<noteq> []" "list_all (\<lambda>d. distinct (map fst d)) xs"
  shows "dict_list (dicts_tokens xs @ [RBRACKET]) = Some xs"
  using assms
proof (induction xs rule: dicts_tokens.induct)
  case 1
  then show ?case by simp
next
  case (2 d)
  then have "distinct (map fst d)" by simp
  from dict_display_dict_tokens [OF this, of "[RBRACKET]"] show ?case
    by (subst dict_list.simps) simp
next
  case (3 d e es)
  then have dd: "distinct (map fst d)"
    and IH: "dict_list (dicts_tokens (e # es) @ [RBRACKET]) = Some (e # es)"
    by simp_all
  have "dict_display (dicts_tokens (d # e # es) @ [RBRACKET])
      = Some (d, COMMA # dicts_tokens (e # es) @ [RBRACKET])"
    using dict_display_dict_tokens [OF dd, of "COMMA # dicts_tokens (e # es) @ [RBRACKET]"]
    by simp
  then show ?case
    using IH by (subst dict_list.simps) simp
qed

lemma dicts_tokens_Nil: "dicts_tokens xs = [] \<longleftrightarrow> xs = []"
  by (induction xs rule: dicts_tokens.induct) (simp_all add: dict_tokens_def)

lemma literal_eval_json_dumps:
  assumes "list_all plain_dict xs"
  shows "literal_eval_msgs (json_dumps xs) = Some xs"
proof (cases "xs = []")
  case True
  then show ?thesis
    by (simp add: literal_eval_msgs_def json_dumps_def)
next
  case False
  from assms have "list_all (\<lambda>d. distinct (map fst d)) xs"
    by (simp add: list_all_iff plain_dict_def)
  from dict_list_dicts_tokens [OF False this]
  have "dict_list (dicts_tokens xs @ [RBRACKET]) = Some xs" .
  moreover have "dicts_tokens xs @ [RBRACKET] \<noteq> [RBRACKET]"
    using False by (simp add: dicts_tokens_Nil)
  ultimately show ?thesis
    by (simp add: literal_eval_msgs_def tokens_json_dumps [OF assms])
qed

lemma load_history_after_insert:
  assumes "list_all plain_dict x"
  shows "load_history literal_eval_msgs
      (fst (insert_message_exchange em json_dumps de ct now cm x e (create empty_file))) = Inr x"
  by (simp add: insert_message_exchange_def get_embedding_model_def init_database_def create_def
      empty_file_def load_history_def get_messages_dataframe_def series_apply_def
      literal_eval_json_dumps [OF assms])

lemma json_dumps_emoji: "json_dumps emoji_exchange = emoji_text"
  by (simp add: emoji_exchange_def emoji_text_def codec_defs)

lemma literal_eval_emoji:
  "literal_eval_msgs emoji_text =
    Some [[(str ''role'', str ''user''), (str ''content'', [0xD83D, 0xDE00])],
          [(str ''role'', str ''assistant''), (str ''content'', str ''hi'')]]"
  by (simp add: emoji_text_def codec_defs)

text \<open>
  Claim C10. Inserting an exchange of dictionaries from strings to strings and loading the
  history returns the exchange. The code does not do so for a character outside the basic
  multilingual plane: \<^verbatim>\<open>json.dumps\<close> writes it as two \<^verbatim>\<open>\u\<close> escapes, and
  \<^verbatim>\<open>ast.literal_eval\<close> reads each escape as a character of its own, so the message comes
  back with two surrogate characters in place of the one that was stored.
\<close>

theorem load_history_emoji:
  "(let (db, result) =
       insert_message_exchange ''full-history'' json_dumps (\<lambda>_::unit. ''null'')
         1700000000 1700000000 ''gpt-4'' emoji_exchange () (create empty_file)
    in result = Inr ()
     \<and> map message_exchange (messages_table db) = [emoji_text]
     \<and> load_history literal_eval_msgs db =
         Inr [[(str ''role'', str ''user''), (str ''content'', [0xD83D, 0xDE00])],
              [(str ''role'', str ''assistant''), (str ''content'', str ''hi'')]]
     \<and> load_history literal_eval_msgs db \<noteq> Inr emoji_exchange)"
  by (simp add: insert_message_exchange_def get_embedding_model_def init_database_def create_def
      empty_file_def load_history_def get_messages_dataframe_def series_apply_def
      json_dumps_emoji literal_eval_emoji)
     (simp add: emoji_exchange_def)

end
